theory Spec2Isabelle
  imports Complex_Main
begin

section \<open>JavaScript numbers\<close>

text \<open>
  A JavaScript number is an IEEE 754 binary64 value. A finite number is modelled as the
  rational it denotes, and the result of a division or a multiplication is the exact
  result rounded to the nearest rational with a significand of 53 bits, a tie going to
  the even significand. The exponent range is left unbounded (the source divides only
  after testing that the divisor is positive, and overflow and subnormal results lie
  beyond \<open>2^1023\<close> and below \<open>2^-1022\<close>); ratings, sums of ratings and counts are integers,
  which binary64 holds exactly below \<open>2^53\<close>.
\<close>

text \<open>The number of binary digits of a positive integer.\<close>

function bitLength :: "int \<Rightarrow> int" where
  "bitLength n = (if n \<le> 0 then 0 else 1 + bitLength (n div 2))"
  by auto
termination
  by (relation "measure nat") auto

text \<open>The binary exponent of a positive rational: the \<open>e\<close> with \<open>2^e \<le> x < 2^(e+1)\<close>.\<close>

definition exponent :: "rat \<Rightarrow> int" where
  "exponent x =
     (if x \<ge> 1 then bitLength \<lfloor>x\<rfloor> - 1
      else - bitLength (\<lceil>1 / x\<rceil> - 1))"

definition roundHalfEven :: "rat \<Rightarrow> int" where
  "roundHalfEven q =
     (let n = \<lfloor>q\<rfloor>; d = q - of_int n
      in if d < 1 / 2 then n else if d > 1 / 2 then n + 1 else if even n then n else n + 1)"

text \<open>The binary64 number nearest to a rational.\<close>

definition double :: "rat \<Rightarrow> rat" where
  "double x =
     (if x = 0 then 0
      else let k = 52 - exponent \<bar>x\<bar>
           in sgn x * of_int (roundHalfEven (\<bar>x\<bar> * power_int 2 k)) / power_int 2 k)"

text \<open>The operators \<open>/\<close> and \<open>*\<close> on numbers.\<close>

definition js_div :: "rat \<Rightarrow> rat \<Rightarrow> rat" where
  "js_div x y = double (x / y)"

definition js_mul :: "rat \<Rightarrow> rat \<Rightarrow> rat" where
  "js_mul x y = double (x * y)"

text \<open>
  \<open>Math.round\<close> gives the integer nearest to its argument, a tie going up; it is exact
  on the number it is given.
\<close>

definition math_round :: "rat \<Rightarrow> int" where
  "math_round x = \<lfloor>x + 1 / 2\<rfloor>"

section \<open>Scoring engine (src/utils/scoring.ts)\<close>

text \<open>\<open>Math.round(p * 100) / 100\<close>, the rounding to two decimals used twice in the source.\<close>

definition round2 :: "rat \<Rightarrow> rat" where
  "round2 p = js_div (of_int (math_round (js_mul p 100))) 100"

text \<open>
  A rating as it reaches the functions at run time: a number, \<open>null\<close> or
  \<open>undefined\<close>. The comment of an entry is a string or absent (\<open>null\<close> and
  \<open>undefined\<close> are not told apart by the code that reads it).
\<close>

datatype js_rating = Undefined | Null | Num int

record score_entry =
  rating :: js_rating
  comment :: "string option"

text \<open>\<open>Record<string, {rating, comment}>\<close>: the entries of the object, looked up by key.\<close>

type_synonym score_record = "(string \<times> score_entry) list"

record rubric_item =
  item_id :: string
  item_domainId :: string
  item_number :: int
  prompt :: string
  item_orderIndex :: int
  maxScore :: int
  scaleMin :: int
  scaleMax :: int

record rubric_domain =
  domain_id :: string
  domain_name :: string
  description :: string
  domain_orderIndex :: int
  items :: "rubric_item list"

text \<open>\<open>ObservationItemScore\<close>: \<open>rating?: number\<close> and \<open>comment?: string\<close>, absent as \<open>None\<close>.\<close>

record observation_item_score =
  score_id :: string
  score_observationId :: string
  rubricItemId :: string
  score_rating :: "int option"
  score_comment :: "string option"
  score_createdAt :: nat
  score_updatedAt :: nat

record domain_score =
  domainId :: string
  domainName :: string
  total :: int
  percentage :: rat
  itemScores :: "observation_item_score list"

text \<open>\<open>score?.rating || undefined\<close>: a missing entry, \<open>null\<close>, \<open>undefined\<close> and \<open>0\<close> all give \<open>undefined\<close>.\<close>

definition rating_or_undefined :: "score_entry option \<Rightarrow> int option" where
  "rating_or_undefined score =
     (case score of
        None \<Rightarrow> None
      | Some e \<Rightarrow> (case rating e of Num r \<Rightarrow> if r = 0 then None else Some r | _ \<Rightarrow> None))"

text \<open>\<open>score?.comment || undefined\<close>: the empty string is falsy too.\<close>

definition comment_or_undefined :: "score_entry option \<Rightarrow> string option" where
  "comment_or_undefined score =
     (case score of
        None \<Rightarrow> None
      | Some e \<Rightarrow> (case comment e of Some c \<Rightarrow> if c = [] then None else Some c | None \<Rightarrow> None))"

text \<open>The object built for one item; \<open>now\<close> is the clock read by \<open>new Date()\<close>.\<close>

definition domainItemScore :: "nat \<Rightarrow> score_record \<Rightarrow> rubric_item \<Rightarrow> observation_item_score" where
  "domainItemScore now scores item =
     (let score = map_of scores (item_id item) in
      \<lparr> score_id = ''score-'' @ item_id item,
        score_observationId = ''temp'',
        rubricItemId = item_id item,
        score_rating = rating_or_undefined score,
        score_comment = comment_or_undefined score,
        score_createdAt = now,
        score_updatedAt = now \<rparr>)"

text \<open>\<open>score.rating !== undefined && score.rating !== null\<close> on the objects just built.\<close>

definition applicable :: "observation_item_score \<Rightarrow> bool" where
  "applicable s = (score_rating s \<noteq> None)"

text \<open>\<open>sum + (score.rating || 0)\<close>\<close>

definition rating_or_zero :: "observation_item_score \<Rightarrow> int" where
  "rating_or_zero s = (case score_rating s of Some r \<Rightarrow> r | None \<Rightarrow> 0)"

text \<open>
  \<open>applicableItems.length * domain.items[0]?.maxScore || 0\<close>: the product binds tighter
  than \<open>||\<close>; with no items the product is \<open>NaN\<close>, which \<open>||\<close> turns into 0.
\<close>

definition maxPossibleScore :: "rubric_domain \<Rightarrow> observation_item_score list \<Rightarrow> int" where
  "maxPossibleScore domain applicableItems =
     (case items domain of
        [] \<Rightarrow> 0
      | first # _ \<Rightarrow> int (length applicableItems) * maxScore first)"

definition domainScoreOf :: "nat \<Rightarrow> score_record \<Rightarrow> rubric_domain \<Rightarrow> domain_score" where
  "domainScoreOf now scores domain =
     (let domainItemScores = map (domainItemScore now scores) (items domain);
          applicableItems = filter applicable domainItemScores;
          tot = foldl (\<lambda>sum s. sum + rating_or_zero s) 0 applicableItems;
          maxPossible = maxPossibleScore domain applicableItems;
          pct = (if maxPossible > 0 then js_mul (js_div (of_int tot) (of_int maxPossible)) 100 else 0)
      in \<lparr> domainId = domain_id domain,
           domainName = domain_name domain,
           total = tot,
           percentage = round2 pct,
           itemScores = domainItemScores \<rparr>)"

definition calculateDomainScores :: "nat \<Rightarrow> rubric_domain list \<Rightarrow> score_record \<Rightarrow> domain_score list" where
  "calculateDomainScores now domains scores = map (domainScoreOf now scores) domains"

definition calculateGrandTotal :: "domain_score list \<Rightarrow> int" where
  "calculateGrandTotal domainScores = foldl (\<lambda>sum domain. sum + total domain) 0 domainScores"

record overall_rating_threshold =
  minPercentage :: rat
  maxPercentage :: rat
  threshold_rating :: string
  threshold_color :: string

definition DEFAULT_OVERALL_RATING_THRESHOLDS :: "overall_rating_threshold list" where
  "DEFAULT_OVERALL_RATING_THRESHOLDS =
     [ \<lparr> minPercentage = 90, maxPercentage = 100, threshold_rating = ''Excellent'', threshold_color = ''success'' \<rparr>,
       \<lparr> minPercentage = 75, maxPercentage = 89, threshold_rating = ''Good'', threshold_color = ''primary'' \<rparr>,
       \<lparr> minPercentage = 60, maxPercentage = 74, threshold_rating = ''Average'', threshold_color = ''warning'' \<rparr>,
       \<lparr> minPercentage = 50, maxPercentage = 59, threshold_rating = ''Weak'', threshold_color = ''warning'' \<rparr>,
       \<lparr> minPercentage = 0, maxPercentage = 49, threshold_rating = ''Very Poor'', threshold_color = ''danger'' \<rparr> ]"

record overall_rating =
  overall_rating :: string
  overall_color :: string
  overall_percentage :: rat

text \<open>\<open>score.rating !== undefined && score.rating !== 0\<close>\<close>

definition countsTowardMax :: "observation_item_score \<Rightarrow> bool" where
  "countsTowardMax s = (score_rating s \<noteq> None \<and> score_rating s \<noteq> Some 0)"

definition totalMaxScore :: "domain_score list \<Rightarrow> int" where
  "totalMaxScore domainScores =
     foldl (\<lambda>sum domain. sum + int (length (filter countsTowardMax (itemScores domain))) * 4) 0 domainScores"

definition inBand :: "rat \<Rightarrow> overall_rating_threshold \<Rightarrow> bool" where
  "inBand p t = (p \<ge> minPercentage t \<and> p \<le> maxPercentage t)"

text \<open>\<open>x || d\<close> on strings: the empty string is falsy.\<close>

definition str_or :: "string option \<Rightarrow> string \<Rightarrow> string" where
  "str_or x d = (case x of None \<Rightarrow> d | Some s \<Rightarrow> if s = [] then d else s)"

definition calculateOverallRating :: "domain_score list \<Rightarrow> overall_rating_threshold list \<Rightarrow> overall_rating" where
  "calculateOverallRating domainScores thresholds =
     (if length domainScores = 0
      then \<lparr> overall_rating = ''No Data'', overall_color = ''gray'', overall_percentage = 0 \<rparr>
      else
        let grandTotal = calculateGrandTotal domainScores;
            tms = totalMaxScore domainScores;
            overallPercentage = (if tms > 0 then js_mul (js_div (of_int grandTotal) (of_int tms)) 100 else 0);
            roundedPercentage = round2 overallPercentage;
            threshold = find (inBand roundedPercentage) thresholds
        in \<lparr> overall_rating = str_or (map_option threshold_rating threshold) ''Unknown'',
             overall_color = str_or (map_option threshold_color threshold) ''gray'',
             overall_percentage = roundedPercentage \<rparr>)"

record observation_data =
  data_totalStudents :: int
  data_presentStudents :: int
  data_itemScores :: score_record

text \<open>\<open>score.rating !== undefined && score.rating !== 0\<close> on an input entry.\<close>

definition isScored :: "score_entry \<Rightarrow> bool" where
  "isScored score = (rating score \<noteq> Undefined \<and> rating score \<noteq> Num 0)"

record validation_result =
  isValid :: bool
  errors :: "string list"

definition validateObservationData :: "observation_data \<Rightarrow> validation_result" where
  "validateObservationData d =
     (let errors0 = [];
          errors1 = (if data_totalStudents d \<le> 0
                     then errors0 @ [''Total students must be greater than 0''] else errors0);
          errors2 = (if data_presentStudents d < 0
                     then errors1 @ [''Present students cannot be negative''] else errors1);
          errors3 = (if data_presentStudents d > data_totalStudents d
                     then errors2 @ [''Present students cannot exceed total students''] else errors2);
          hasScores = list_ex isScored (map snd (data_itemScores d));
          errors4 = (if \<not> hasScores
                     then errors3 @ [''At least one rubric item must be scored''] else errors3)
      in \<lparr> isValid = (length errors4 = 0), errors = errors4 \<rparr>)"


section \<open>Audit log helper (src/lib/audit-log.ts)\<close>

record audit_log =
  objectType :: string
  objectId :: string
  audit_action :: string
  audit_userId :: string
  diff :: "(string \<times> string) list"

text \<open>
  The record store behind the Prisma client is external to the sources. A table is the
  list of its rows; \<open>update\<close> writes the fields it is given and no other.
\<close>

record item_score_row =
  row_observationId :: string
  row_rubricItemId :: string
  row_rating :: "int option"
  row_comment :: "string option"

record attachment =
  attachment_id :: string
  attachment_observationId :: string
  fileName :: string

record observation =
  observation_id :: string
  branchId :: string
  teacherId :: string
  observerId :: string
  reviewerId :: "string option"
  classSection :: string
  totalStudents :: int
  presentStudents :: int
  subject :: string
  topic :: string
  date :: nat
  time :: string
  lessonPlanAttached :: bool
  strengths :: "string option"
  areasToImprove :: "string option"
  suggestions :: "string option"
  status :: string
  reviewedAt :: "nat option"
  reviewerComments :: "string option"
  finalizedAt :: "nat option"

record db =
  observations :: "observation list"
  itemScoreRows :: "item_score_row list"
  attachments :: "attachment list"
  auditLogs :: "audit_log list"

text \<open>
  What one request sees of the outside: the clock read by \<open>Date.now()\<close> in the rate
  limiter, the clock read by \<open>new Date()\<close> in the handlers, and whether the store
  rejects the write of an audit row (\<open>prisma.auditLog.create\<close> throws).
\<close>

record env =
  dateNow :: nat
  newDate :: nat
  auditLogFails :: bool

text \<open>\<open>prisma.auditLog.create\<close>: the new table, or the exception as \<open>None\<close>.\<close>

definition auditLog_create :: "env \<Rightarrow> audit_log \<Rightarrow> db \<Rightarrow> db option" where
  "auditLog_create e entry d =
     (if auditLogFails e then None else Some (d\<lparr>auditLogs := auditLogs d @ [entry]\<rparr>))"

record create_audit_log_params =
  param_userId :: string
  param_action :: string
  param_objectType :: "string option"
  param_objectId :: "string option"
  param_details :: "string option"
  param_diff :: "(string \<times> string) list option"
  param_ipAddress :: "string option"

text \<open>
  An object literal with a spread, \<open>{details, ipAddress, ...diff}\<close>: a key of \<open>diff\<close> that
  is already present takes the new value at its old place, a new key goes to the end.
\<close>

fun put_property :: "string \<Rightarrow> string \<Rightarrow> (string \<times> string) list \<Rightarrow> (string \<times> string) list" where
  "put_property k v [] = [(k, v)]"
| "put_property k v ((k', v') # kvs) =
     (if k = k' then (k, v) # kvs else (k', v') # put_property k v kvs)"

definition spread :: "(string \<times> string) list \<Rightarrow> (string \<times> string) list \<Rightarrow> (string \<times> string) list" where
  "spread obj extra = foldl (\<lambda>acc (k, v). put_property k v acc) obj extra"

text \<open>
  \<open>createAuditLog\<close>: the defaults of the destructured parameters, then the write inside
  \<open>try\<close>; the \<open>catch\<close> returns \<open>null\<close> and the table is as it was.
\<close>

definition createAuditLog :: "env \<Rightarrow> create_audit_log_params \<Rightarrow> db \<Rightarrow> audit_log option \<times> db" where
  "createAuditLog e p d =
     (let entry = \<lparr> objectType = (case param_objectType p of None \<Rightarrow> ''SYSTEM'' | Some t \<Rightarrow> t),
                    objectId = (case param_objectId p of None \<Rightarrow> ''N/A'' | Some i \<Rightarrow> i),
                    audit_action = param_action p,
                    audit_userId = param_userId p,
                    diff = spread
                             [(''details'', (case param_details p of None \<Rightarrow> [] | Some t \<Rightarrow> t)),
                              (''ipAddress'', (case param_ipAddress p of None \<Rightarrow> ''unknown'' | Some a \<Rightarrow> a))]
                             (case param_diff p of None \<Rightarrow> [] | Some kv \<Rightarrow> kv) \<rparr>
      in case auditLog_create e entry d of
           Some d' \<Rightarrow> (Some entry, d')
         | None \<Rightarrow> (None, d))"

section \<open>Rate limiter (src/lib/rateLimit.ts)\<close>

record rate_entry =
  rate_count :: nat
  rate_resetTime :: nat

record rate_result =
  success :: bool
  remaining :: int
  resetTime :: nat

type_synonym rate_store = "string \<rightharpoonup> rate_entry"

definition rateLimit :: "string \<Rightarrow> nat \<Rightarrow> nat \<Rightarrow> nat \<Rightarrow> rate_store \<Rightarrow> rate_result \<times> rate_store" where
  "rateLimit identifier maxRequests windowMs t store =
     (let fresh = (\<lparr> success = True, remaining = int maxRequests - 1, resetTime = t + windowMs \<rparr>,
                   store(identifier \<mapsto> \<lparr> rate_count = 1, rate_resetTime = t + windowMs \<rparr>))
      in case store identifier of
           None \<Rightarrow> fresh
         | Some en \<Rightarrow>
             if t > rate_resetTime en then fresh
             else if rate_count en \<ge> maxRequests
             then (\<lparr> success = False, remaining = 0, resetTime = rate_resetTime en \<rparr>, store)
             else (\<lparr> success = True, remaining = int maxRequests - int (rate_count en + 1),
                     resetTime = rate_resetTime en \<rparr>,
                   store(identifier \<mapsto> en\<lparr>rate_count := rate_count en + 1\<rparr>)))"

record session_user =
  user_id :: string
  user_role :: string

record 'b request =
  forwardedFor :: "string option"
  realIp :: "string option"
  session :: "session_user option"
  param_id :: string
  body :: "'b option"

text \<open>\<open>forwarded || realIp || 'unknown'\<close>\<close>

definition getClientIdentifier :: "('b, 'z) request_scheme \<Rightarrow> string" where
  "getClientIdentifier r =
     str_or (forwardedFor r) (str_or (realIp r) ''unknown'')"


section \<open>Lifecycle routes\<close>

datatype payload =
    ErrorBody string
  | RateLimitBody string nat
  | ObservationBody observation
  | MessageBody string

text \<open>\<open>NextResponse.json(body, {status, headers})\<close>\<close>

datatype response = Response nat payload "(string \<times> string) list"

definition json_error :: "nat \<Rightarrow> string \<Rightarrow> response" where
  "json_error code msg = Response code (ErrorBody msg) []"

text \<open>The outer \<open>catch\<close> of every handler.\<close>

definition internal_server_error :: response where
  "internal_server_error = json_error 500 ''Internal server error''"

record server =
  rateStore :: rate_store
  database :: db

definition findUnique :: "string \<Rightarrow> db \<Rightarrow> observation option" where
  "findUnique i d = find (\<lambda>ob. observation_id ob = i) (observations d)"

definition itemScoresOf :: "string \<Rightarrow> db \<Rightarrow> item_score_row list" where
  "itemScoresOf i d = filter (\<lambda>row. row_observationId row = i) (itemScoreRows d)"

definition observation_update :: "string \<Rightarrow> (observation \<Rightarrow> observation) \<Rightarrow> db \<Rightarrow> db" where
  "observation_update i f d =
     d\<lparr>observations := map (\<lambda>ob. if observation_id ob = i then f ob else ob) (observations d)\<rparr>"

text \<open>
  Strings are lists of code units below 256. Of those, \<open>String.prototype.trim\<close> strips
  tab, line feed, vertical tab, form feed, carriage return, space and no-break space.
\<close>

definition is_space :: "char \<Rightarrow> bool" where
  "is_space c =
     (c \<in> set [CHR '' '', CHR 0x09, CHR 0x0A, CHR 0x0B, CHR 0x0C, CHR 0x0D, CHR 0xA0])"

definition trim :: "string \<Rightarrow> string" where
  "trim s = rev (dropWhile is_space (rev (dropWhile is_space s)))"

definition toUpperCase :: "string \<Rightarrow> string" where
  "toUpperCase s =
     map (\<lambda>c. let n = (of_char c :: nat) in if 97 \<le> n \<and> n \<le> 122 then char_of (n - 32) else c) s"

text \<open>\<open>Number.prototype.toString\<close> on a natural number.\<close>

fun toString :: "nat \<Rightarrow> string" where
  "toString n =
     (if n < 10 then [char_of (48 + n)]
      else toString (n div 10) @ [char_of (48 + n mod 10)])"

record transition_body =
  action :: "string option"
  body_reviewerComments :: "string option"

text \<open>\<open>reviewerComments ? String(reviewerComments).trim() : null\<close>\<close>

definition sanitizeReviewerComments :: "string option \<Rightarrow> string option" where
  "sanitizeReviewerComments c =
     (case c of None \<Rightarrow> None | Some t \<Rightarrow> if t = [] then None else Some (trim t))"

text \<open>
  The \<open>switch\<close> of the transition route: an early response, or the fields to write and
  the text of the audit entry.
\<close>

definition transition_switch ::
  "env \<Rightarrow> session_user \<Rightarrow> string \<Rightarrow> string option \<Rightarrow> observation \<Rightarrow> item_score_row list
     \<Rightarrow> response + ((observation \<Rightarrow> observation) \<times> string)" where
  "transition_switch e u act sanitizedReviewerComments ob rows =
     (if act = ''SUBMIT'' then
        if observerId ob \<noteq> user_id u \<and> user_role u \<noteq> ''ADMIN''
        then Inl (json_error 403 ''Forbidden'')
        else if status ob \<noteq> ''DRAFT''
        then Inl (json_error 400 ''Only draft observations can be submitted'')
        else if length (filter (\<lambda>score. row_rating score \<noteq> None) rows) = 0
        then Inl (json_error 400 ''At least one rubric item must be rated before submission'')
        else Inr (\<lambda>x. x\<lparr>status := ''SUBMITTED''\<rparr>, ''Submitted observation for review'')
      else if act = ''REVIEW'' then
        if user_role u \<notin> set [''REVIEWER'', ''ADMIN'']
        then Inl (json_error 403 ''Forbidden'')
        else if status ob \<noteq> ''SUBMITTED''
        then Inl (json_error 400 ''Only submitted observations can be reviewed'')
        else Inr (\<lambda>x. x\<lparr>status := ''REVIEWED'', reviewerId := Some (user_id u),
                         reviewedAt := Some (newDate e),
                         reviewerComments := sanitizedReviewerComments\<rparr>,
                  ''Reviewed observation'')
      else if act = ''FINALIZE'' then
        if user_role u \<notin> set [''REVIEWER'', ''ADMIN'']
        then Inl (json_error 403 ''Forbidden'')
        else if status ob \<noteq> ''REVIEWED''
        then Inl (json_error 400 ''Only reviewed observations can be finalized'')
        else Inr (\<lambda>x. x\<lparr>status := ''FINALIZED'', finalizedAt := Some (newDate e)\<rparr>,
                  ''Finalized observation'')
      else if act = ''RETURN_TO_DRAFT'' then
        if user_role u \<notin> set [''REVIEWER'', ''ADMIN'']
        then Inl (json_error 403 ''Forbidden'')
        else if status ob \<notin> set [''SUBMITTED'', ''REVIEWED'']
        then Inl (json_error 400 ''Only submitted or reviewed observations can be returned to draft'')
        else Inr (\<lambda>x. x\<lparr>status := ''DRAFT'', reviewerId := None, reviewedAt := None,
                         reviewerComments := None\<rparr>,
                  ''Returned observation to draft'')
      else Inl (json_error 400 ''Invalid action''))"

text \<open>
  The audit write of the routes is a bare \<open>prisma.auditLog.create\<close> inside the handler's
  \<open>try\<close>: when it throws, the handler's \<open>catch\<close> answers 500 and what was written
  before stays written.
\<close>

definition audit_then_respond :: "env \<Rightarrow> audit_log \<Rightarrow> response \<Rightarrow> server \<Rightarrow> response \<times> server" where
  "audit_then_respond e entry ok s =
     (case auditLog_create e entry (database s) of
        None \<Rightarrow> (internal_server_error, s)
      | Some d \<Rightarrow> (ok, s\<lparr>database := d\<rparr>))"

text \<open>\<open>PUT\<close> of the transition route (unnamed/part_007).\<close>

definition transition_PUT :: "env \<Rightarrow> transition_body request \<Rightarrow> server \<Rightarrow> response \<times> server" where
  "transition_PUT e r s =
     (let (rateLimitResult, store') =
            rateLimit (getClientIdentifier r) 20 (15 * 60 * 1000) (dateNow e) (rateStore s);
          s1 = s\<lparr>rateStore := store'\<rparr>
      in if \<not> success rateLimitResult
         then (Response 429
                 (RateLimitBody ''Too many requests. Please try again later.'' (resetTime rateLimitResult))
                 [(''X-RateLimit-Limit'', ''20''), (''X-RateLimit-Remaining'', ''0''),
                  (''X-RateLimit-Reset'', toString (resetTime rateLimitResult))],
               s1)
         else case session r of
           None \<Rightarrow> (json_error 401 ''Unauthorized'', s1)
         | Some u \<Rightarrow>
             (case body r of
                None \<Rightarrow> (internal_server_error, s1)
              | Some b \<Rightarrow>
                  (case action b of
                     None \<Rightarrow> (json_error 400 ''Valid action is required: SUBMIT, REVIEW, FINALIZE, or RETURN_TO_DRAFT'', s1)
                   | Some act \<Rightarrow>
                       if act = [] \<or> act \<notin> set [''SUBMIT'', ''REVIEW'', ''FINALIZE'', ''RETURN_TO_DRAFT'']
                       then (json_error 400 ''Valid action is required: SUBMIT, REVIEW, FINALIZE, or RETURN_TO_DRAFT'', s1)
                       else
                         (case findUnique (param_id r) (database s1) of
                            None \<Rightarrow> (json_error 404 ''Observation not found'', s1)
                          | Some ob \<Rightarrow>
                              (case transition_switch e u act
                                      (sanitizeReviewerComments (body_reviewerComments b)) ob
                                      (itemScoresOf (param_id r) (database s1)) of
                                 Inl resp \<Rightarrow> (resp, s1)
                               | Inr (f, auditAction) \<Rightarrow>
                                   (let updatedObservation = f ob;
                                        s2 = s1\<lparr>database := observation_update (param_id r) f (database s1)\<rparr>
                                    in audit_then_respond e
                                         \<lparr> objectType = ''Observation'', objectId = param_id r,
                                           audit_action = toUpperCase act, audit_userId = user_id u,
                                           diff = [(''action'', auditAction),
                                                   (''previousStatus'', status ob),
                                                   (''newStatus'', status updatedObservation)] \<rparr>
                                         (Response 200 (ObservationBody updatedObservation) [])
                                         s2))))))"


text \<open>
  The body of the edit route. A field that is absent (\<open>undefined\<close>) is \<open>None\<close> and is
  left as it is by the store; the three nullable text fields can also be set to
  \<open>null\<close>. The date is the time stamp \<open>new Date(date)\<close> stands for, with 0 falsy.
\<close>

record edit_body =
  body_classSection :: "string option"
  body_totalStudents :: "int option"
  body_presentStudents :: "int option"
  body_subject :: "string option"
  body_topic :: "string option"
  body_date :: "nat option"
  body_time :: "string option"
  body_lessonPlanAttached :: "bool option"
  body_strengths :: "string option option"
  body_areasToImprove :: "string option option"
  body_suggestions :: "string option option"
  body_itemScores :: "score_record option"

definition written :: "'a option \<Rightarrow> 'a \<Rightarrow> 'a" where
  "written new old = (case new of None \<Rightarrow> old | Some v \<Rightarrow> v)"

definition edit_fields :: "edit_body \<Rightarrow> observation \<Rightarrow> observation" where
  "edit_fields b ob =
     ob\<lparr> classSection := written (body_classSection b) (classSection ob),
         totalStudents := written (body_totalStudents b) (totalStudents ob),
         presentStudents := written (body_presentStudents b) (presentStudents ob),
         subject := written (body_subject b) (subject ob),
         topic := written (body_topic b) (topic ob),
         date := written (case body_date b of None \<Rightarrow> None | Some t \<Rightarrow> if t = 0 then None else Some t) (date ob),
         time := written (body_time b) (time ob),
         lessonPlanAttached := written (body_lessonPlanAttached b) (lessonPlanAttached ob),
         strengths := written (body_strengths b) (strengths ob),
         areasToImprove := written (body_areasToImprove b) (areasToImprove ob),
         suggestions := written (body_suggestions b) (suggestions ob) \<rparr>"

text \<open>One row per entry of the posted object: \<open>rating: itemData.rating, comment: itemData.comment || null\<close>.\<close>

definition itemScoreData :: "string \<Rightarrow> score_record \<Rightarrow> item_score_row list" where
  "itemScoreData i scores =
     map (\<lambda>(rubricItem, itemData).
            \<lparr> row_observationId = i, row_rubricItemId = rubricItem,
              row_rating = (case rating itemData of Num n \<Rightarrow> Some n | _ \<Rightarrow> None),
              row_comment = comment_or_undefined (Some itemData) \<rparr>) scores"

definition replace_itemScores :: "string \<Rightarrow> score_record option \<Rightarrow> db \<Rightarrow> db" where
  "replace_itemScores i scores d =
     (case scores of
        None \<Rightarrow> d
      | Some entries \<Rightarrow>
          if length entries > 0
          then d\<lparr>itemScoreRows :=
                   filter (\<lambda>row. row_observationId row \<noteq> i) (itemScoreRows d) @ itemScoreData i entries\<rparr>
          else d)"

text \<open>\<open>PUT\<close> of the observation route (unnamed/part_008).\<close>

definition observation_PUT :: "env \<Rightarrow> edit_body request \<Rightarrow> server \<Rightarrow> response \<times> server" where
  "observation_PUT e r s =
     (case session r of
        None \<Rightarrow> (json_error 401 ''Unauthorized'', s)
      | Some u \<Rightarrow>
          (case body r of
             None \<Rightarrow> (internal_server_error, s)
           | Some b \<Rightarrow>
               (case findUnique (param_id r) (database s) of
                  None \<Rightarrow> (json_error 404 ''Observation not found'', s)
                | Some existingObservation \<Rightarrow>
                    if observerId existingObservation \<noteq> user_id u \<and> user_role u \<noteq> ''ADMIN''
                    then (json_error 403 ''Forbidden'', s)
                    else if status existingObservation = ''FINALIZED''
                    then (json_error 400 ''Cannot edit finalized observation'', s)
                    else if (case (body_presentStudents b, body_totalStudents b) of
                               (Some p, Some t) \<Rightarrow> p > t | _ \<Rightarrow> False)
                    then (json_error 400 ''Present students cannot exceed total students'', s)
                    else
                      (let updatedObservation = edit_fields b existingObservation;
                           d1 = observation_update (param_id r) (edit_fields b) (database s);
                           d2 = replace_itemScores (param_id r) (body_itemScores b) d1
                       in audit_then_respond e
                            \<lparr> objectType = ''Observation'', objectId = param_id r,
                              audit_action = ''UPDATE'', audit_userId = user_id u,
                              diff = [(''action'', ''Updated observation'')] \<rparr>
                            (Response 200 (ObservationBody updatedObservation) [])
                            (s\<lparr>database := d2\<rparr>)))))"

text \<open>\<open>DELETE\<close> of the observation route (unnamed/part_008); it reads no body.\<close>

definition observation_DELETE :: "env \<Rightarrow> unit request \<Rightarrow> server \<Rightarrow> response \<times> server" where
  "observation_DELETE e r s =
     (case session r of
        None \<Rightarrow> (json_error 401 ''Unauthorized'', s)
      | Some u \<Rightarrow>
          (case findUnique (param_id r) (database s) of
             None \<Rightarrow> (json_error 404 ''Observation not found'', s)
           | Some existingObservation \<Rightarrow>
               if observerId existingObservation \<noteq> user_id u \<and> user_role u \<noteq> ''ADMIN''
               then (json_error 403 ''Forbidden'', s)
               else if status existingObservation = ''FINALIZED''
               then (json_error 400 ''Cannot delete finalized observation'', s)
               else
                 (let d = database s;
                      d1 = d\<lparr>itemScoreRows := filter (\<lambda>row. row_observationId row \<noteq> param_id r) (itemScoreRows d)\<rparr>;
                      d2 = d1\<lparr>attachments := filter (\<lambda>a. attachment_observationId a \<noteq> param_id r) (attachments d1)\<rparr>;
                      d3 = d2\<lparr>observations := filter (\<lambda>ob. observation_id ob \<noteq> param_id r) (observations d2)\<rparr>
                  in audit_then_respond e
                       \<lparr> objectType = ''Observation'', objectId = param_id r,
                         audit_action = ''DELETE'', audit_userId = user_id u,
                         diff = [(''action'', ''Deleted observation'')] \<rparr>
                       (Response 200 (MessageBody ''Observation deleted successfully'') [])
                       (s\<lparr>database := d3\<rparr>))))"

section \<open>Notions of the specification and example inputs\<close>

definition isRated :: "score_record \<Rightarrow> rubric_item \<Rightarrow> bool" where
  "isRated scores item =
     (case map_of scores (item_id item) of
        None \<Rightarrow> False
      | Some e \<Rightarrow> (case rating e of Num r \<Rightarrow> r \<noteq> 0 | _ \<Rightarrow> False))"

definition ratingOf :: "score_record \<Rightarrow> rubric_item \<Rightarrow> int" where
  "ratingOf scores item =
     (case map_of scores (item_id item) of
        None \<Rightarrow> 0
      | Some e \<Rightarrow> (case rating e of Num r \<Rightarrow> r | _ \<Rightarrow> 0))"

definition includedItems :: "score_record \<Rightarrow> rubric_domain \<Rightarrow> rubric_item list" where
  "includedItems scores d = filter (isRated scores) (items d)"

text \<open>Rounding to two decimals in exact arithmetic, a tie going up.\<close>

definition roundHalfUp2 :: "rat \<Rightarrow> rat" where
  "roundHalfUp2 x = of_int \<lfloor>x * 100 + 1 / 2\<rfloor> / 100"

text \<open>\<open>100 * total / maxPossible\<close> rounded to two decimals, or 0 when nothing is included.\<close>

definition percentOf :: "int \<Rightarrow> int \<Rightarrow> rat" where
  "percentOf t m = (if m > 0 then roundHalfUp2 (100 * of_int t / of_int m) else 0)"

definition rubricItem :: "string \<Rightarrow> int \<Rightarrow> rubric_item" where
  "rubricItem i m =
     \<lparr> item_id = i, item_domainId = ''d1'', item_number = 1, prompt = ''Prompt'',
       item_orderIndex = 0, maxScore = m, scaleMin = 0, scaleMax = m \<rparr>"

definition rubricDomain :: "rubric_item list \<Rightarrow> rubric_domain" where
  "rubricDomain xs =
     \<lparr> domain_id = ''d1'', domain_name = ''Domain 1'', description = ''Example'',
       domain_orderIndex = 0, items = xs \<rparr>"

definition rated :: "int \<Rightarrow> score_entry" where
  "rated r = \<lparr> rating = Num r, comment = None \<rparr>"

text \<open>The sum of the included items' own \<open>maxScore\<close> values.\<close>

definition specMaxPossible :: "score_record \<Rightarrow> rubric_domain \<Rightarrow> int" where
  "specMaxPossible scores d = sum_list (map maxScore (includedItems scores d))"

definition scoredItem :: "int \<Rightarrow> observation_item_score" where
  "scoredItem r =
     \<lparr> score_id = ''score-i'', score_observationId = ''temp'', rubricItemId = ''i'',
       score_rating = Some r, score_comment = None, score_createdAt = 0, score_updatedAt = 0 \<rparr>"

definition unratedItem :: observation_item_score where
  "unratedItem =
     \<lparr> score_id = ''score-u'', score_observationId = ''temp'', rubricItemId = ''u'',
       score_rating = None, score_comment = None, score_createdAt = 0, score_updatedAt = 0 \<rparr>"

definition domainScoreWith :: "int \<Rightarrow> observation_item_score list \<Rightarrow> domain_score" where
  "domainScoreWith t xs =
     \<lparr> domainId = ''d1'', domainName = ''Domain 1'', total = t, percentage = 0, itemScores = xs \<rparr>"

text \<open>A rated item score: it has a rating, and the rating is not 0.\<close>

fun isRatedScore :: "observation_item_score \<Rightarrow> bool" where
  "isRatedScore s = (case score_rating s of None \<Rightarrow> False | Some r \<Rightarrow> r \<noteq> 0)"

definition specGrandTotal :: "domain_score list \<Rightarrow> int" where
  "specGrandTotal ds = sum_list (map total ds)"

text \<open>Four for every rated item score of every domain.\<close>

definition specTotalMaxScore :: "domain_score list \<Rightarrow> int" where
  "specTotalMaxScore ds = sum_list (map (\<lambda>d. int (length (filter isRatedScore (itemScores d))) * 4) ds)"

text \<open>An entry that is missing, or whose rating is \<open>undefined\<close>, \<open>null\<close> or 0.\<close>

definition unratedOrZero :: "score_entry option \<Rightarrow> bool" where
  "unratedOrZero x =
     (case x of
        None \<Rightarrow> True
      | Some e \<Rightarrow> (case rating e of Num r \<Rightarrow> r = 0 | _ \<Rightarrow> True))"

definition entryRating :: "score_entry option \<Rightarrow> js_rating" where
  "entryRating x = (case x of None \<Rightarrow> Undefined | Some e \<Rightarrow> rating e)"

text \<open>The comment of an entry, a missing entry and a missing comment read as the empty string.\<close>

definition entryComment :: "score_entry option \<Rightarrow> string" where
  "entryComment x =
     (case x of None \<Rightarrow> [] | Some e \<Rightarrow> (case comment e of None \<Rightarrow> [] | Some c \<Rightarrow> c))"

definition sameRating :: "score_entry option \<Rightarrow> score_entry option \<Rightarrow> bool" where
  "sameRating x y = (entryRating x = entryRating y \<or> (unratedOrZero x \<and> unratedOrZero y))"

text \<open>
  Two score records whose ratings differ only where one side rates an item 0 and the
  other leaves it unrated; the keys of both records are compared.
\<close>

definition differOnlyByZeroRatings :: "score_record \<Rightarrow> score_record \<Rightarrow> bool" where
  "differOnlyByZeroRatings s s' =
     list_all (\<lambda>k. sameRating (map_of s k) (map_of s' k)) (map fst s @ map fst s')"

definition sameComments :: "score_record \<Rightarrow> score_record \<Rightarrow> bool" where
  "sameComments s s' =
     list_all (\<lambda>k. entryComment (map_of s k) = entryComment (map_of s' k)) (map fst s @ map fst s')"

text \<open>Total, percentage and per-item ratings of every domain score.\<close>

definition scoresOnly :: "domain_score list \<Rightarrow> (string \<times> int \<times> rat \<times> (string \<times> int option) list) list" where
  "scoresOnly ds =
     map (\<lambda>d. (domainId d, total d, percentage d,
                map (\<lambda>sc. (rubricItemId sc, score_rating sc)) (itemScores d))) ds"

definition violated :: "bool \<Rightarrow> string \<Rightarrow> string list" where
  "violated rule message = (if rule then [message] else [])"

fun statusCode :: "response \<Rightarrow> nat" where
  "statusCode (Response code _ _) = code"

definition passesRateLimit :: "env \<Rightarrow> ('b, 'z) request_scheme \<Rightarrow> server \<Rightarrow> bool" where
  "passesRateLimit e r s =
     success (fst (rateLimit (getClientIdentifier r) 20 (15 * 60 * 1000) (dateNow e) (rateStore s)))"

definition isObserverOrAdmin :: "session_user \<Rightarrow> observation \<Rightarrow> bool" where
  "isObserverOrAdmin u ob = (observerId ob = user_id u \<or> user_role u = ''ADMIN'')"

definition hasNonNullRating :: "item_score_row list \<Rightarrow> bool" where
  "hasNonNullRating rows = list_ex (\<lambda>row. row_rating row \<noteq> None) rows"

definition submitAudit :: "string \<Rightarrow> session_user \<Rightarrow> observation \<Rightarrow> audit_log" where
  "submitAudit i u ob =
     \<lparr> objectType = ''Observation'', objectId = i, audit_action = ''SUBMIT'',
       audit_userId = user_id u,
       diff = [(''action'', ''Submitted observation for review''),
               (''previousStatus'', status ob), (''newStatus'', ''SUBMITTED'')] \<rparr>"

definition exampleObservation :: "string \<Rightarrow> observation" where
  "exampleObservation st =
     \<lparr> observation_id = ''obs1'', branchId = ''b1'', teacherId = ''t1'', observerId = ''u1'',
       reviewerId = None, classSection = ''5A'', totalStudents = 30, presentStudents = 28,
       subject = ''Math'', topic = ''Fractions'', date = 1, time = ''09:00'',
       lessonPlanAttached = True, strengths = None, areasToImprove = None, suggestions = None,
       status = st, reviewedAt = None, reviewerComments = None, finalizedAt = None \<rparr>"

definition reviewedObservation :: "string \<Rightarrow> observation" where
  "reviewedObservation st =
     (exampleObservation st)
       \<lparr> reviewerId := Some ''u2'', reviewedAt := Some 500, reviewerComments := Some ''Well planned'' \<rparr>"

definition exampleRow :: "int option \<Rightarrow> item_score_row" where
  "exampleRow r =
     \<lparr> row_observationId = ''obs1'', row_rubricItemId = ''item1'', row_rating = r, row_comment = None \<rparr>"

definition exampleServer :: "observation \<Rightarrow> item_score_row list \<Rightarrow> server" where
  "exampleServer ob rows =
     \<lparr> rateStore = Map.empty,
       database = \<lparr> observations = [ob], itemScoreRows = rows, attachments = [], auditLogs = [] \<rparr> \<rparr>"

definition exampleRequest :: "session_user \<Rightarrow> 'b \<Rightarrow> 'b request" where
  "exampleRequest u b =
     \<lparr> forwardedFor = None, realIp = None, session = Some u, param_id = ''obs1'', body = Some b \<rparr>"

definition exampleEnv :: "bool \<Rightarrow> env" where
  "exampleEnv fails = \<lparr> dateNow = 1000, newDate = 1000, auditLogFails = fails \<rparr>"

definition observerUser :: session_user where
  "observerUser = \<lparr> user_id = ''u1'', user_role = ''OBSERVER'' \<rparr>"

definition reviewerUser :: session_user where
  "reviewerUser = \<lparr> user_id = ''u2'', user_role = ''REVIEWER'' \<rparr>"

definition adminUser :: session_user where
  "adminUser = \<lparr> user_id = ''u3'', user_role = ''ADMIN'' \<rparr>"

definition transitionBody :: "string \<Rightarrow> transition_body" where
  "transitionBody act = \<lparr> action = Some act, body_reviewerComments = None \<rparr>"

definition rejectedWithoutChange :: "response \<times> server \<Rightarrow> server \<Rightarrow> bool" where
  "rejectedWithoutChange result s =
     (statusCode (fst result) \<ge> 400 \<and> database (snd result) = database s)"

definition returnToDraftFields :: "observation \<Rightarrow> observation" where
  "returnToDraftFields ob =
     ob\<lparr>status := ''DRAFT'', reviewerId := None, reviewedAt := None, reviewerComments := None\<rparr>"

definition returnToDraftAudit :: "string \<Rightarrow> session_user \<Rightarrow> observation \<Rightarrow> audit_log" where
  "returnToDraftAudit i u ob =
     \<lparr> objectType = ''Observation'', objectId = i, audit_action = ''RETURN_TO_DRAFT'',
       audit_userId = user_id u,
       diff = [(''action'', ''Returned observation to draft''),
               (''previousStatus'', status ob), (''newStatus'', ''DRAFT'')] \<rparr>"

definition isReviewerOrAdmin :: "session_user \<Rightarrow> bool" where
  "isReviewerOrAdmin u = (user_role u = ''REVIEWER'' \<or> user_role u = ''ADMIN'')"

definition editBody :: "string \<Rightarrow> edit_body" where
  "editBody section =
     \<lparr> body_classSection = Some section, body_totalStudents = None, body_presentStudents = None,
       body_subject = None, body_topic = None, body_date = None, body_time = None,
       body_lessonPlanAttached = None, body_strengths = None, body_areasToImprove = None,
       body_suggestions = None, body_itemScores = None \<rparr>"

definition exampleAuditParams :: create_audit_log_params where
  "exampleAuditParams =
     \<lparr> param_userId = ''u3'', param_action = ''BACKUP'', param_objectType = None,
       param_objectId = None, param_details = Some ''Backup created'', param_diff = None,
       param_ipAddress = None \<rparr>"

text \<open>
  A scaled percentage \<open>y = 10000 * total / max\<close> that is farther from every half-integer
  than the error three binary64 operations can add to it (a relative \<open>2^-51\<close>).
\<close>

definition farFromTie :: "rat \<Rightarrow> bool" where
  "farFromTie y =
     (let k = \<lfloor>y + 1 / 2\<rfloor>; err = \<bar>y\<bar> / 2 ^ 51
      in of_int k - 1 / 2 + err \<le> y \<and> y + err < of_int k + 1 / 2)"

text \<open>A value exactly halfway between two integers.\<close>

definition exactTie :: "rat \<Rightarrow> bool" where
  "exactTie y = (y + 1 / 2 = of_int \<lfloor>y + 1 / 2\<rfloor>)"

section \<open>Auxiliary lemmas\<close>

declare bitLength.simps [simp del]

lemma foldl_plus_sum_list:
  "foldl (\<lambda>acc x. acc + f x) a xs = (a::int) + sum_list (map f xs)"
  by (induction xs arbitrary: a) simp_all

lemma bitLength_nonneg: "0 \<le> bitLength n"
  by (induction n rule: bitLength.induct) (subst bitLength.simps, simp)

lemma bitLength_upper: "n < 2 ^ nat (bitLength n)"
proof (induction n rule: bitLength.induct)
  case (1 n)
  show ?case
  proof (cases "n \<le> 0")
    case True
    then show ?thesis by (subst bitLength.simps) simp
  next
    case False
    then have ih: "n div 2 < 2 ^ nat (bitLength (n div 2))"
      using 1 by simp
    have "nat (1 + bitLength (n div 2)) = Suc (nat (bitLength (n div 2)))"
      using bitLength_nonneg [of "n div 2"] by simp
    moreover have "n < 2 * 2 ^ nat (bitLength (n div 2))"
      using ih by linarith
    ultimately show ?thesis
      using False by (subst bitLength.simps) simp
  qed
qed

lemma bitLength_lower: "0 < n \<Longrightarrow> 2 ^ nat (bitLength n - 1) \<le> n"
proof (induction n rule: bitLength.induct)
  case (1 n)
  show ?case
  proof (cases "n div 2 \<le> 0")
    case True
    with 1(2) have "n = 1" by linarith
    then show ?thesis
      by (subst bitLength.simps, simp, subst bitLength.simps, simp)
  next
    case False
    then have ih: "2 ^ nat (bitLength (n div 2) - 1) \<le> n div 2"
      using 1 by simp
    have pos: "1 \<le> bitLength (n div 2)"
      using False bitLength_nonneg [of "n div 2 div 2"] by (subst bitLength.simps) simp
    then have "nat (bitLength (n div 2)) = Suc (nat (bitLength (n div 2) - 1))"
      by simp
    moreover have "2 * 2 ^ nat (bitLength (n div 2) - 1) \<le> n"
      using ih by linarith
    ultimately show ?thesis
      using 1(2) by (subst bitLength.simps) simp
  qed
qed

lemma exponent_lower:
  assumes "0 < x"
  shows "power_int 2 (exponent x) \<le> x"
proof (cases "1 \<le> x")
  case True
  then have fl: "0 < \<lfloor>x\<rfloor>" by simp
  have nn: "0 \<le> bitLength \<lfloor>x\<rfloor> - 1"
    using fl bitLength_nonneg [of "\<lfloor>x\<rfloor> div 2"] by (subst bitLength.simps) simp
  have "(2::int) ^ nat (bitLength \<lfloor>x\<rfloor> - 1) \<le> \<lfloor>x\<rfloor>"
    using bitLength_lower [OF fl] .
  then have "(of_int ((2::int) ^ nat (bitLength \<lfloor>x\<rfloor> - 1)) :: rat) \<le> of_int \<lfloor>x\<rfloor>"
    by (simp only: of_int_le_iff)
  also have "\<dots> \<le> x" by simp
  finally have "(2::rat) ^ nat (bitLength \<lfloor>x\<rfloor> - 1) \<le> x" by simp
  then show ?thesis
    using True nn by (simp add: exponent_def power_int_def)
next
  case False
  define m where "m = bitLength (\<lceil>1 / x\<rceil> - 1)"
  have mn: "0 \<le> m" unfolding m_def by (rule bitLength_nonneg)
  have "\<lceil>1 / x\<rceil> - 1 < 2 ^ nat m"
    unfolding m_def by (rule bitLength_upper)
  then have "\<lceil>1 / x\<rceil> \<le> 2 ^ nat m" by linarith
  then have "1 / x \<le> of_int (2 ^ nat m)"
    by (simp only: ceiling_le_iff)
  then have "1 / x \<le> (2::rat) ^ nat m" by simp
  then have "1 \<le> x * 2 ^ nat m"
    using assms by (simp add: field_simps)
  then have "1 / 2 ^ nat m \<le> x"
    by (simp add: field_simps)
  moreover have "power_int (2::rat) (- m) = 1 / 2 ^ nat m"
    using mn by (simp add: power_int_def field_simps)
  ultimately show ?thesis
    using False by (simp add: exponent_def m_def)
qed

lemma roundHalfEven_error: "\<bar>of_int (roundHalfEven q) - q\<bar> \<le> 1 / 2"
proof -
  have "of_int \<lfloor>q\<rfloor> \<le> q" "q < of_int \<lfloor>q\<rfloor> + 1"
    by linarith+
  then show ?thesis
    unfolding roundHalfEven_def Let_def by (auto simp add: abs_le_iff)
qed

lemma double_error: "\<bar>double x - x\<bar> \<le> \<bar>x\<bar> / 2 ^ 53"
proof (cases "x = 0")
  case True
  then show ?thesis by (simp add: double_def)
next
  case False
  define a where "a = \<bar>x\<bar>"
  define p where "p = power_int (2::rat) (52 - exponent a)"
  define n where "n = roundHalfEven (a * p)"
  have apos: "0 < a" using False by (simp add: a_def)
  have ppos: "0 < p" by (simp add: p_def)
  have x: "x = sgn x * a" by (simp add: a_def sgn_mult_abs)
  have d: "double x = sgn x * (of_int n / p)"
    using False by (simp add: double_def Let_def a_def p_def n_def)
  have "\<bar>double x - x\<bar> = \<bar>sgn x * (of_int n / p - a)\<bar>"
    by (subst x, subst d) (simp add: algebra_simps)
  also have "\<dots> = \<bar>of_int n / p - a\<bar>"
    using False by (simp add: abs_mult abs_sgn_eq)
  also have "\<dots> = \<bar>of_int n - a * p\<bar> / p"
  proof -
    have "of_int n / p - a = (of_int n - a * p) / p"
      using ppos by (simp add: field_simps)
    then show ?thesis using ppos by (simp add: abs_divide)
  qed
  also have "\<dots> \<le> (1 / 2) / p"
    unfolding n_def using ppos by (intro divide_right_mono roundHalfEven_error) simp
  also have "\<dots> \<le> a / 2 ^ 53"
  proof -
    have pe: "p * power_int 2 (exponent a) = 2 ^ 52"
      unfolding p_def by (subst power_int_diff) simp_all
    have "power_int 2 (exponent a) \<le> a" using exponent_lower [OF apos] .
    then have "p * power_int 2 (exponent a) \<le> p * a"
      using ppos by (intro mult_left_mono) simp_all
    then have "2 ^ 52 \<le> a * p"
      by (simp only: pe mult.commute)
    then have "1 / p \<le> a / 2 ^ 52"
      using ppos by (simp add: field_simps)
    then show ?thesis by simp
  qed
  finally show ?thesis by (simp add: a_def)
qed

lemma double_zero: "double 0 = 0"
  by (simp add: double_def)

lemma floor_half: "\<lfloor>(1 / 2 :: rat)\<rfloor> = 0"
  by (simp add: floor_eq_iff)

lemma round2_zero: "round2 0 = 0"
  by (simp add: round2_def js_mul_def js_div_def double_zero math_round_def floor_half)

text \<open>One more operation on a value that carries a relative error.\<close>

lemma relative_error_step:
  assumes "\<bar>a - b\<bar> \<le> \<bar>b\<bar> * d" and "0 \<le> d"
  shows "\<bar>double (a * c) - b * c\<bar> \<le> \<bar>b * c\<bar> * (d + (1 + d) / 2 ^ 53)"
proof -
  have ab: "\<bar>a\<bar> \<le> \<bar>b\<bar> * (1 + d)"
  proof -
    have "\<bar>a\<bar> \<le> \<bar>b\<bar> + \<bar>a - b\<bar>" by linarith
    also have "\<dots> \<le> \<bar>b\<bar> + \<bar>b\<bar> * d" using assms(1) by simp
    finally show ?thesis by (simp add: algebra_simps)
  qed
  have "\<bar>double (a * c) - b * c\<bar> \<le> \<bar>double (a * c) - a * c\<bar> + \<bar>a * c - b * c\<bar>"
    by linarith
  also have "\<dots> \<le> \<bar>a * c\<bar> / 2 ^ 53 + \<bar>a * c - b * c\<bar>"
    using double_error [of "a * c"] by simp
  also have "\<bar>a * c - b * c\<bar> = \<bar>a - b\<bar> * \<bar>c\<bar>"
    by (simp add: abs_mult [symmetric] algebra_simps)
  also have "\<bar>a * c\<bar> / 2 ^ 53 + \<bar>a - b\<bar> * \<bar>c\<bar>
             \<le> (\<bar>b\<bar> * (1 + d) * \<bar>c\<bar>) / 2 ^ 53 + (\<bar>b\<bar> * d) * \<bar>c\<bar>"
  proof -
    have "\<bar>a * c\<bar> \<le> \<bar>b\<bar> * (1 + d) * \<bar>c\<bar>"
      using ab by (simp add: abs_mult mult_right_mono)
    moreover have "\<bar>a - b\<bar> * \<bar>c\<bar> \<le> (\<bar>b\<bar> * d) * \<bar>c\<bar>"
      using assms(1) by (simp add: mult_right_mono)
    ultimately show ?thesis
      by (simp add: divide_right_mono add_mono)
  qed
  also have "\<dots> = \<bar>b * c\<bar> * (d + (1 + d) / 2 ^ 53)"
    by (simp add: abs_mult algebra_simps)
  finally show ?thesis .
qed

lemma math_round_error: "\<bar>of_int (math_round x) - x\<bar> \<le> 1 / 2"
  unfolding math_round_def by linarith

text \<open>The quotient, times 100, times 100 again: three rounded operations.\<close>

lemma scaled_percentage_error:
  "\<bar>js_mul (js_mul (js_div g m) 100) 100 - 10000 * g / m\<bar> \<le> \<bar>10000 * g / m\<bar> / 2 ^ 51"
proof -
  define e :: rat where "e = 1 / 2 ^ 53"
  have e0: "0 \<le> e" by (simp add: e_def)
  have s1: "\<bar>js_div g m - g / m\<bar> \<le> \<bar>g / m\<bar> * e"
    using double_error [of "g / m"] by (simp add: js_div_def e_def)
  have s2: "\<bar>js_mul (js_div g m) 100 - g / m * 100\<bar> \<le> \<bar>g / m * 100\<bar> * (e + (1 + e) * e)"
    using relative_error_step [OF s1 e0, of 100] by (simp add: js_mul_def e_def)
  have e2: "0 \<le> e + (1 + e) * e" using e0 by simp
  have s3: "\<bar>js_mul (js_mul (js_div g m) 100) 100 - g / m * 100 * 100\<bar>
            \<le> \<bar>g / m * 100 * 100\<bar> * ((e + (1 + e) * e) + (1 + (e + (1 + e) * e)) * e)"
    using relative_error_step [OF s2 e2, of 100] by (simp add: js_mul_def e_def)
  have small: "(e + (1 + e) * e) + (1 + (e + (1 + e) * e)) * e \<le> 1 / 2 ^ 51"
    by (simp add: e_def)
  have y: "g / m * 100 * 100 = 10000 * g / m" by simp
  have "\<bar>10000 * g / m\<bar> * ((e + (1 + e) * e) + (1 + (e + (1 + e) * e)) * e)
        \<le> \<bar>10000 * g / m\<bar> * (1 / 2 ^ 51)"
    using small by (intro mult_left_mono) simp_all
  with s3 show ?thesis
    unfolding y by simp
qed

lemma round2_percentage:
  "\<exists>n. round2 (js_mul (js_div g m) 100) = double (of_int n / 100)
     \<and> \<bar>of_int n - 10000 * g / m\<bar> \<le> 1 / 2 + \<bar>10000 * g / m\<bar> / 2 ^ 51"
proof -
  define n where "n = math_round (js_mul (js_mul (js_div g m) 100) 100)"
  have "round2 (js_mul (js_div g m) 100) = double (of_int n / 100)"
    by (simp add: round2_def js_div_def n_def)
  moreover have "\<bar>of_int n - 10000 * g / m\<bar> \<le> 1 / 2 + \<bar>10000 * g / m\<bar> / 2 ^ 51"
    using math_round_error [of "js_mul (js_mul (js_div g m) 100) 100"]
      scaled_percentage_error [of g m]
    unfolding n_def by linarith
  ultimately show ?thesis by blast
qed

lemma countsTowardMax_isRatedScore: "countsTowardMax s = isRatedScore s"
  by (cases "score_rating s") (simp_all add: countsTowardMax_def)

lemma totalMaxScore_spec: "totalMaxScore ds = specTotalMaxScore ds"
proof -
  have "filter countsTowardMax xs = filter isRatedScore xs" for xs
    by (rule filter_cong) (simp_all add: countsTowardMax_isRatedScore)
  then show ?thesis
    by (simp add: totalMaxScore_def specTotalMaxScore_def foldl_plus_sum_list)
qed

lemma calculateGrandTotal_spec: "calculateGrandTotal ds = specGrandTotal ds"
  by (simp add: calculateGrandTotal_def specGrandTotal_def foldl_plus_sum_list)

lemma specTotalMaxScore_nonneg: "0 \<le> specTotalMaxScore ds"
  unfolding specTotalMaxScore_def by (induction ds) simp_all

lemma overall_percentage_eq:
  "ds \<noteq> [] \<Longrightarrow>
   overall_percentage (calculateOverallRating ds th) =
     round2 (if specTotalMaxScore ds > 0
             then js_mul (js_div (of_int (specGrandTotal ds)) (of_int (specTotalMaxScore ds))) 100
             else 0)"
  by (simp add: calculateOverallRating_def Let_def totalMaxScore_spec calculateGrandTotal_spec)

lemma round2_percentage_far:
  assumes "farFromTie (10000 * g / m)"
  shows "round2 (js_mul (js_div g m) 100) = double (roundHalfUp2 (100 * g / m))"
proof -
  define y where "y = 10000 * g / m"
  define y3 where "y3 = js_mul (js_mul (js_div g m) 100) 100"
  define k where "k = \<lfloor>y + 1 / 2\<rfloor>"
  have err: "\<bar>y3 - y\<bar> \<le> \<bar>y\<bar> / 2 ^ 51"
    unfolding y3_def y_def by (rule scaled_percentage_error)
  have far: "of_int k - 1 / 2 + \<bar>y\<bar> / 2 ^ 51 \<le> y" "y + \<bar>y\<bar> / 2 ^ 51 < of_int k + 1 / 2"
    using assms unfolding farFromTie_def Let_def y_def k_def by simp_all
  have "of_int k \<le> y3 + 1 / 2" "y3 + 1 / 2 < of_int k + 1"
    using err far by linarith+
  then have mr: "math_round y3 = k"
    unfolding math_round_def by (intro floor_unique) simp_all
  have rh: "roundHalfUp2 (100 * g / m) = of_int k / 100"
    by (simp add: roundHalfUp2_def k_def y_def)
  have "round2 (js_mul (js_div g m) 100) = double (of_int (math_round y3) / 100)"
    by (simp add: round2_def js_div_def y3_def)
  then show ?thesis
    by (simp only: mr rh)
qed

lemma double_values:
  "double (8999 / 100) = 6332483288547983 / 70368744177664"
  "double (4999 / 100) = 7035467042882847 / 140737488355328"
  "double (8929 / 100) = 6283225167623619 / 70368744177664"
  "double (6062 / 100) = 8531506544099983 / 140737488355328"
  "double (6063 / 100) = 8532913918983537 / 140737488355328"
  "double (5437 / 100) = 7651897241879183 / 140737488355328"
  "double (5438 / 100) = 7653304616762737 / 140737488355328"
  "double (2812 / 100) = 7915076345103647 / 281474976710656"
  "double (2813 / 100) = 7917891094870753 / 281474976710656"
  by code_simp+

lemma percent_values:
  "round2 (js_mul (js_div 18 20) 100) = 90"
  "round2 (js_mul (js_div 1213 1348) 100) = double (8999 / 100)"
  "round2 (js_mul (js_div 2 4) 100) = 50"
  "round2 (js_mul (js_div 3333 6668) 100) = double (4999 / 100)"
  "round2 (js_mul (js_div 25 28) 100) = double (8929 / 100)"
  "round2 (js_mul (js_div 97 160) 100) = double (6062 / 100)"
  "round2 (js_mul (js_div 87 160) 100) = double (5437 / 100)"
  "round2 (js_mul (js_div 9 32) 100) = double (2813 / 100)"
  "round2 (js_mul (js_div 3 5) 100) = 60"
  "round2 (js_mul (js_div 3 4) 100) = 75"
  "round2 (js_mul (js_div 9 8) 100) = 225 / 2"
  by code_simp+

lemma floor_numeral_fraction:
  "\<lfloor>(numeral a / numeral b :: rat)\<rfloor> = numeral a div numeral b"
  by (metis floor_divide_of_int_eq of_int_numeral)

lemma applicable_domainItemScore:
  "applicable (domainItemScore t scores item) = isRated scores item"
  by (simp add: applicable_def domainItemScore_def rating_or_undefined_def isRated_def Let_def
      split: option.splits js_rating.splits)

lemma rating_or_zero_domainItemScore:
  "isRated scores item \<Longrightarrow> rating_or_zero (domainItemScore t scores item) = ratingOf scores item"
  by (simp add: rating_or_zero_def domainItemScore_def rating_or_undefined_def isRated_def ratingOf_def
      Let_def split: option.splits js_rating.splits)

lemma filter_applicable_map:
  "filter applicable (map (domainItemScore t scores) xs) =
   map (domainItemScore t scores) (filter (isRated scores) xs)"
  by (induction xs) (simp_all add: applicable_domainItemScore)

lemma sum_rating_included:
  "sum_list (map (rating_or_zero \<circ> domainItemScore t scores) (filter (isRated scores) xs)) =
   sum_list (map (ratingOf scores) (filter (isRated scores) xs))"
  by (induction xs) (simp_all add: rating_or_zero_domainItemScore)

lemma total_domainScoreOf:
  "total (domainScoreOf t scores d) = sum_list (map (ratingOf scores) (includedItems scores d))"
  by (simp add: domainScoreOf_def Let_def foldl_plus_sum_list filter_applicable_map
      sum_rating_included includedItems_def)

lemma percentage_domainScoreOf:
  "percentage (domainScoreOf t scores d) =
     round2 (if maxPossibleScore d (map (domainItemScore t scores) (includedItems scores d)) > 0
             then js_mul (js_div (of_int (sum_list (map (ratingOf scores) (includedItems scores d))))
                    (of_int (maxPossibleScore d (map (domainItemScore t scores) (includedItems scores d))))) 100
             else 0)"
  by (simp add: domainScoreOf_def Let_def foldl_plus_sum_list filter_applicable_map
      sum_rating_included includedItems_def)

lemma differOnlyByZeroRatings_key:
  assumes "differOnlyByZeroRatings s s'"
  shows "sameRating (map_of s k) (map_of s' k)"
proof (cases "k \<in> set (map fst s @ map fst s')")
  case True
  with assms show ?thesis
    by (simp add: differOnlyByZeroRatings_def list_all_iff)
next
  case False
  then have "map_of s k = None" and "map_of s' k = None"
    by (simp_all add: map_of_eq_None_iff)
  then show ?thesis
    by (simp add: sameRating_def)
qed

lemma sameComments_key:
  assumes "sameComments s s'"
  shows "entryComment (map_of s k) = entryComment (map_of s' k)"
proof (cases "k \<in> set (map fst s @ map fst s')")
  case True
  with assms show ?thesis
    by (simp add: sameComments_def list_all_iff)
next
  case False
  then have "map_of s k = None" and "map_of s' k = None"
    by (simp_all add: map_of_eq_None_iff)
  then show ?thesis
    by simp
qed

lemma sameRating_coerced:
  assumes "sameRating x y"
  shows "rating_or_undefined x = rating_or_undefined y"
  using assms
  by (auto simp add: sameRating_def unratedOrZero_def entryRating_def rating_or_undefined_def
      split: option.splits js_rating.splits)

lemma comment_or_undefined_entryComment:
  "comment_or_undefined x = (if entryComment x = [] then None else Some (entryComment x))"
  by (simp add: comment_or_undefined_def entryComment_def split: option.splits)

lemma rating_or_undefined_nonzero: "rating_or_undefined x \<noteq> Some 0"
  by (simp add: rating_or_undefined_def split: option.splits js_rating.splits)

lemma comment_or_undefined_nonempty: "comment_or_undefined x \<noteq> Some []"
  by (simp add: comment_or_undefined_def split: option.splits)

lemma itemScores_domainScoreOf:
  "itemScores (domainScoreOf t s d) = map (domainItemScore t s) (items d)"
  by (simp add: domainScoreOf_def Let_def)

text \<open>What a domain score shows of the ratings depends on the coerced ratings only.\<close>

lemma isRated_coerced: "isRated s item = (rating_or_undefined (map_of s (item_id item)) \<noteq> None)"
  by (simp add: isRated_def rating_or_undefined_def split: option.splits js_rating.splits)

lemma ratingOf_coerced:
  "isRated s item \<Longrightarrow> rating_or_undefined (map_of s (item_id item)) = Some (ratingOf s item)"
  by (simp add: isRated_def ratingOf_def rating_or_undefined_def split: option.splits js_rating.splits)

lemma scores_same:
  assumes "differOnlyByZeroRatings s s'"
  shows "isRated s = isRated s'"
    and "\<And>item. isRated s item \<Longrightarrow> ratingOf s item = ratingOf s' item"
proof -
  have c: "rating_or_undefined (map_of s k) = rating_or_undefined (map_of s' k)" for k
    using sameRating_coerced [OF differOnlyByZeroRatings_key [OF assms]] .
  show r: "isRated s = isRated s'"
    by (simp add: fun_eq_iff isRated_coerced c)
  show "ratingOf s item = ratingOf s' item" if "isRated s item" for item
  proof -
    have "isRated s' item" using that r by simp
    then show ?thesis
      using ratingOf_coerced [OF that] ratingOf_coerced [of s' item] c [of "item_id item"] by simp
  qed
qed

lemma scoresOnly_domainScoreOf:
  assumes "differOnlyByZeroRatings s s'"
  shows "scoresOnly [domainScoreOf t s d] = scoresOnly [domainScoreOf t s' d]"
proof -
  have c: "rating_or_undefined (map_of s k) = rating_or_undefined (map_of s' k)" for k
    using sameRating_coerced [OF differOnlyByZeroRatings_key [OF assms]] .
  have inc: "includedItems s d = includedItems s' d"
    by (simp add: includedItems_def scores_same(1) [OF assms])
  have sums: "sum_list (map (ratingOf s) (includedItems s' d)) =
              sum_list (map (ratingOf s') (includedItems s' d))"
    by (rule arg_cong [where f = sum_list], rule map_cong)
      (simp_all add: includedItems_def scores_same [OF assms])
  have mp: "maxPossibleScore d (map (domainItemScore t s) (includedItems s' d)) =
            maxPossibleScore d (map (domainItemScore t s') (includedItems s' d))"
    by (simp add: maxPossibleScore_def split: list.splits)
  have ratings: "map (\<lambda>sc. (rubricItemId sc, score_rating sc)) (map (domainItemScore t s) (items d)) =
                 map (\<lambda>sc. (rubricItemId sc, score_rating sc)) (map (domainItemScore t s') (items d))"
    by (simp add: domainItemScore_def Let_def c)
  have ids: "domainId (domainScoreOf t s d) = domainId (domainScoreOf t s' d)"
    by (simp add: domainScoreOf_def Let_def)
  show ?thesis
    unfolding scoresOnly_def
    by (simp add: total_domainScoreOf percentage_domainScoreOf itemScores_domainScoreOf
        inc sums mp ratings ids del: map_map)
qed

lemma scoresOnly_same:
  assumes "differOnlyByZeroRatings s s'"
  shows "scoresOnly (calculateDomainScores t domains s) = scoresOnly (calculateDomainScores t domains s')"
proof (induction domains)
  case Nil
  show ?case by (simp add: calculateDomainScores_def scoresOnly_def)
next
  case (Cons d ds)
  have "scoresOnly [domainScoreOf t s d] = scoresOnly [domainScoreOf t s' d]"
    by (rule scoresOnly_domainScoreOf [OF assms])
  with Cons show ?case
    by (simp add: calculateDomainScores_def scoresOnly_def)
qed

lemma domainItemScore_same:
  assumes "differOnlyByZeroRatings s s'" and "sameComments s s'"
  shows "domainItemScore t s item = domainItemScore t s' item"
  using sameRating_coerced [OF differOnlyByZeroRatings_key [OF assms(1), of "item_id item"]]
    sameComments_key [OF assms(2), of "item_id item"]
  by (simp add: domainItemScore_def Let_def comment_or_undefined_entryComment)

lemma calculateDomainScores_same:
  assumes "differOnlyByZeroRatings s s'" and "sameComments s s'"
  shows "calculateDomainScores t domains s = calculateDomainScores t domains s'"
proof -
  have "domainItemScore t s = domainItemScore t s'"
    using domainItemScore_same [OF assms] by (intro ext)
  then show ?thesis
    by (simp add: calculateDomainScores_def domainScoreOf_def)
qed

lemma transition_PUT_switch:
  assumes "passesRateLimit e r s"
    and "session r = Some u"
    and "body r = Some b"
    and "action b = Some act"
    and "act \<in> set [''SUBMIT'', ''REVIEW'', ''FINALIZE'', ''RETURN_TO_DRAFT'']"
    and "findUnique (param_id r) (database s) = Some ob"
  shows "transition_PUT e r s =
     (case transition_switch e u act (sanitizeReviewerComments (body_reviewerComments b)) ob
             (itemScoresOf (param_id r) (database s)) of
        Inl resp \<Rightarrow>
          (resp, s\<lparr>rateStore := snd (rateLimit (getClientIdentifier r) 20 (15 * 60 * 1000) (dateNow e) (rateStore s))\<rparr>)
      | Inr (f, auditAction) \<Rightarrow>
          audit_then_respond e
            \<lparr> objectType = ''Observation'', objectId = param_id r,
              audit_action = toUpperCase act, audit_userId = user_id u,
              diff = [(''action'', auditAction), (''previousStatus'', status ob),
                      (''newStatus'', status (f ob))] \<rparr>
            (Response 200 (ObservationBody (f ob)) [])
            (s\<lparr>rateStore := snd (rateLimit (getClientIdentifier r) 20 (15 * 60 * 1000) (dateNow e) (rateStore s)),
               database := observation_update (param_id r) f (database s)\<rparr>))"
proof -
  have ne: "act \<noteq> []" using assms(5) by auto
  show ?thesis
    using assms ne unfolding transition_PUT_def passesRateLimit_def
    by (simp add: case_prod_beta Let_def split: sum.splits)
qed

lemma toUpperCase_actions:
  "toUpperCase ''SUBMIT'' = ''SUBMIT''"
  "toUpperCase ''REVIEW'' = ''REVIEW''"
  "toUpperCase ''FINALIZE'' = ''FINALIZE''"
  "toUpperCase ''RETURN_TO_DRAFT'' = ''RETURN_TO_DRAFT''"
  by (simp_all add: toUpperCase_def)

lemma audit_then_respond_ok:
  "\<not> auditLogFails e \<Longrightarrow>
   audit_then_respond e entry ok s = (ok, s\<lparr>database := (database s)\<lparr>auditLogs := auditLogs (database s) @ [entry]\<rparr>\<rparr>)"
  by (simp add: audit_then_respond_def auditLog_create_def)

lemma audit_then_respond_fails:
  "auditLogFails e \<Longrightarrow> audit_then_respond e entry ok s = (internal_server_error, s)"
  by (simp add: audit_then_respond_def auditLog_create_def)

lemma findUnique_observation_update:
  assumes "findUnique i d = Some ob"
    and "\<And>x. observation_id (f x) = observation_id x"
  shows "findUnique i (observation_update i f d) = Some (f ob)"
proof -
  have "find (\<lambda>x. observation_id x = i) (map (\<lambda>x. if observation_id x = i then f x else x) xs) =
        map_option f (find (\<lambda>x. observation_id x = i) xs)" for xs
    by (induction xs) (simp_all add: assms(2))
  then show ?thesis
    using assms(1) by (simp add: findUnique_def observation_update_def)
qed

lemma findUnique_auditLogs:
  "findUnique i (d\<lparr>auditLogs := logs\<rparr>) = findUnique i d"
  by (simp add: findUnique_def)

lemma observation_update_frame:
  "itemScoreRows (observation_update i f d) = itemScoreRows d"
  "attachments (observation_update i f d) = attachments d"
  "auditLogs (observation_update i f d) = auditLogs d"
  by (simp_all add: observation_update_def)

lemma submit_switch:
  "transition_switch e u ''SUBMIT'' c ob rows =
     (if \<not> isObserverOrAdmin u ob then Inl (json_error 403 ''Forbidden'')
      else if status ob \<noteq> ''DRAFT'' then Inl (json_error 400 ''Only draft observations can be submitted'')
      else if \<not> hasNonNullRating rows
      then Inl (json_error 400 ''At least one rubric item must be rated before submission'')
      else Inr (\<lambda>x. x\<lparr>status := ''SUBMITTED''\<rparr>, ''Submitted observation for review''))"
proof -
  have "(length (filter (\<lambda>score. row_rating score \<noteq> None) rows) = 0) = (\<not> hasNonNullRating rows)"
    by (simp add: hasNonNullRating_def list_ex_iff filter_empty_conv)
  then show ?thesis
    unfolding transition_switch_def isObserverOrAdmin_def by auto
qed

lemma example_passesRateLimit:
  "passesRateLimit (exampleEnv fails) (exampleRequest u b) (exampleServer ob rows)"
  by (simp add: passesRateLimit_def rateLimit_def exampleServer_def exampleRequest_def
      getClientIdentifier_def str_or_def Let_def)

lemma example_findUnique:
  "findUnique (param_id (exampleRequest u b)) (database (exampleServer (exampleObservation st) rows)) =
     Some (exampleObservation st)"
  by (simp add: findUnique_def exampleServer_def exampleRequest_def exampleObservation_def)

lemma finalized_switch:
  assumes "status ob = ''FINALIZED''"
  shows "\<exists>resp. transition_switch e u act c ob rows = Inl resp \<and> statusCode resp \<ge> 400"
  using assms by (simp add: transition_switch_def json_error_def)

lemma transition_PUT_finalized:
  assumes "findUnique (param_id r) (database s) = Some ob"
    and "status ob = ''FINALIZED''"
  shows "rejectedWithoutChange (transition_PUT e r s) s"
proof -
  obtain rl st where rl: "rateLimit (getClientIdentifier r) 20 900000 (dateNow e) (rateStore s) = (rl, st)"
    by (cases "rateLimit (getClientIdentifier r) 20 900000 (dateNow e) (rateStore s)")
  have sw: "\<And>u act c rows. \<exists>resp. transition_switch e u act c ob rows = Inl resp \<and> statusCode resp \<ge> 400"
    using finalized_switch [OF assms(2)] by blast
  show ?thesis
  proof (cases "success rl")
    case False
    then show ?thesis
      by (simp add: transition_PUT_def rl rejectedWithoutChange_def)
  next
    case ok: True
    show ?thesis
    proof (cases "session r")
      case None
      with ok show ?thesis
        by (simp add: transition_PUT_def rl rejectedWithoutChange_def json_error_def)
    next
      case (Some u)
      show ?thesis
      proof (cases "body r")
        case None
        with ok Some show ?thesis
          by (simp add: transition_PUT_def rl rejectedWithoutChange_def json_error_def
              internal_server_error_def)
      next
        case b: (Some b)
        show ?thesis
        proof (cases "action b")
          case None
          with ok Some b show ?thesis
            by (simp add: transition_PUT_def rl rejectedWithoutChange_def json_error_def)
        next
          case act: (Some act)
          obtain resp where resp: "transition_switch e u act
              (sanitizeReviewerComments (body_reviewerComments b)) ob
              (itemScoresOf (param_id r) (database s)) = Inl resp" "statusCode resp \<ge> 400"
            using sw by blast
          with ok Some b act assms(1) show ?thesis
            by (simp add: transition_PUT_def rl rejectedWithoutChange_def json_error_def Let_def)
        qed
      qed
    qed
  qed
qed

lemma observation_PUT_finalized:
  assumes "findUnique (param_id r) (database s) = Some ob"
    and "status ob = ''FINALIZED''"
  shows "rejectedWithoutChange (observation_PUT e r s) s"
  using assms
  by (simp add: observation_PUT_def rejectedWithoutChange_def json_error_def
      internal_server_error_def split: option.splits)

lemma observation_DELETE_finalized:
  assumes "findUnique (param_id r) (database s) = Some ob"
    and "status ob = ''FINALIZED''"
  shows "rejectedWithoutChange (observation_DELETE e r s) s"
  using assms
  by (simp add: observation_DELETE_def rejectedWithoutChange_def json_error_def
      split: option.splits)

lemma returnToDraftFields_fun:
  "(\<lambda>x. x\<lparr>status := ''DRAFT'', reviewerId := None, reviewedAt := None, reviewerComments := None\<rparr>)
     = returnToDraftFields"
  by (simp add: returnToDraftFields_def fun_eq_iff)

lemma return_switch:
  assumes "isReviewerOrAdmin u"
    and "status ob = ''SUBMITTED'' \<or> status ob = ''REVIEWED''"
  shows "transition_switch e u ''RETURN_TO_DRAFT'' c ob rows =
           Inr (returnToDraftFields, ''Returned observation to draft'')"
  using assms
  by (auto simp add: transition_switch_def isReviewerOrAdmin_def returnToDraftFields_fun)

lemma overall_rating_first_band:
  assumes "ds \<noteq> []"
    and "find (inBand (overall_percentage (calculateOverallRating ds th))) th = Some t"
  shows "overall_rating (calculateOverallRating ds th) = str_or (Some (threshold_rating t)) ''Unknown''"
    and "overall_color (calculateOverallRating ds th) = str_or (Some (threshold_color t)) ''gray''"
  using assms by (simp_all add: calculateOverallRating_def Let_def)

lemma overall_rating_no_band:
  assumes "ds \<noteq> []"
    and "find (inBand (overall_percentage (calculateOverallRating ds th))) th = None"
  shows "overall_rating (calculateOverallRating ds th) = ''Unknown''"
    and "overall_color (calculateOverallRating ds th) = ''gray''"
  using assms by (simp_all add: calculateOverallRating_def Let_def str_or_def)

lemma farFromTie_ratio:
  assumes m: "0 < m"
    and small: "10000 * \<bar>g\<bar> < (2::int) ^ 50"
    and notie: "\<not> exactTie (10000 * of_int g / of_int m)"
  shows "farFromTie (10000 * of_int g / of_int m)"
proof -
  define y :: rat where "y = 10000 * of_int g / of_int m"
  define k where "k = \<lfloor>y + 1 / 2\<rfloor>"
  define err where "err = \<bar>y\<bar> / 2 ^ 51"
  have mpos: "(0::rat) < of_int m" using m by simp
  have ym: "y * of_int m = 10000 * of_int g"
    using mpos by (simp add: y_def)
  have lo: "of_int k - 1 / 2 \<le> y" and hi: "y < of_int k + 1 / 2"
    unfolding k_def by linarith+
  have ne: "y \<noteq> of_int k - 1 / 2"
    using notie unfolding exactTie_def y_def [symmetric] k_def [symmetric] by auto
  \<comment> \<open>the distances to the two neighbouring ties are multiples of \<open>1 / (2 m)\<close>\<close>
  have below: "1 \<le> (2 * y - (2 * of_int k - 1)) * of_int m"
  proof -
    have "(2 * y - (2 * of_int k - 1)) * of_int m = of_int (20000 * g - (2 * k - 1) * m)"
      using ym by (simp add: algebra_simps)
    moreover have "0 < (2 * y - (2 * of_int k - 1)) * of_int m"
      using lo ne mpos by (intro mult_pos_pos) simp_all
    ultimately have "(0::rat) < of_int (20000 * g - (2 * k - 1) * m)" by simp
    then have "0 < 20000 * g - (2 * k - 1) * m" by (simp only: of_int_0_less_iff)
    then have "1 \<le> 20000 * g - (2 * k - 1) * m" by linarith
    then have "(1::rat) \<le> of_int (20000 * g - (2 * k - 1) * m)"
      by (simp only: of_int_1_le_iff)
    with \<open>(2 * y - (2 * of_int k - 1)) * of_int m = of_int (20000 * g - (2 * k - 1) * m)\<close>
    show ?thesis by simp
  qed
  have above: "1 \<le> ((2 * of_int k + 1) - 2 * y) * of_int m"
  proof -
    have "((2 * of_int k + 1) - 2 * y) * of_int m = of_int ((2 * k + 1) * m - 20000 * g)"
      using ym by (simp add: algebra_simps)
    moreover have "0 < ((2 * of_int k + 1) - 2 * y) * of_int m"
      using hi mpos by (intro mult_pos_pos) simp_all
    ultimately have "(0::rat) < of_int ((2 * k + 1) * m - 20000 * g)" by simp
    then have "0 < (2 * k + 1) * m - 20000 * g" by (simp only: of_int_0_less_iff)
    then have "1 \<le> (2 * k + 1) * m - 20000 * g" by linarith
    then have "(1::rat) \<le> of_int ((2 * k + 1) * m - 20000 * g)"
      by (simp only: of_int_1_le_iff)
    with \<open>((2 * of_int k + 1) - 2 * y) * of_int m = of_int ((2 * k + 1) * m - 20000 * g)\<close>
    show ?thesis by simp
  qed
  have errm: "2 * err * of_int m < 1"
  proof -
    have "\<bar>y\<bar> * of_int m = 10000 * \<bar>of_int g\<bar>"
      using mpos by (simp add: y_def abs_mult)
    moreover have "(10000::rat) * \<bar>of_int g\<bar> < 2 ^ 50"
    proof -
      have "(of_int (10000 * \<bar>g\<bar>) :: rat) < of_int (2 ^ 50)"
        using small by (simp only: of_int_less_iff)
      then show ?thesis by simp
    qed
    ultimately have "\<bar>y\<bar> * of_int m < 2 ^ 50" by simp
    then have "2 * (\<bar>y\<bar> / 2 ^ 51) * of_int m < 1"
      by (simp add: field_simps)
    then show ?thesis by (simp add: err_def)
  qed
  have "2 * err * of_int m < (2 * y - (2 * of_int k - 1)) * of_int m"
    using errm below by linarith
  then have "2 * err < 2 * y - (2 * of_int k - 1)"
    using mpos by (simp only: mult_less_cancel_right_pos)
  then have a: "of_int k - 1 / 2 + err \<le> y" by linarith
  have "2 * err * of_int m < ((2 * of_int k + 1) - 2 * y) * of_int m"
    using errm above by linarith
  then have "2 * err < (2 * of_int k + 1) - 2 * y"
    using mpos by (simp only: mult_less_cancel_right_pos)
  then have b: "y + err < of_int k + 1 / 2" by linarith
  show ?thesis
    unfolding farFromTie_def Let_def y_def [symmetric] k_def [symmetric] err_def [symmetric]
    using a b by simp
qed

section \<open>Properties of the scoring engine and of the lifecycle routes\<close>

text \<open>
  C1 (calculateOverallRating, default table). The bands of the default table end at
  whole numbers (75 to 89, 90 to 100, ...) while the percentage is rounded to two decimals.
  A rounded percentage of 90.00 lies in the first band and 50.00 in the fourth. The
  percentages 89.99 (337 rated items with total 1213) and 49.99 (1667 rated items with
  total 3333) lie in no band, as does 89.29 (seven items rated 4, 4, 4, 4, 3, 3, 3): there
  \<open>find\<close> returns nothing and the result is \<open>Unknown\<close> with colour \<open>gray\<close>, not
  \<open>Good\<close> or \<open>Very Poor\<close>. The percentages are the binary64 numbers written 89.99,
  49.99 and 89.29.
\<close>

theorem C1_default_thresholds_leave_gaps:
  "calculateOverallRating
     [domainScoreWith 18 (replicate 5 (scoredItem 4))] DEFAULT_OVERALL_RATING_THRESHOLDS =
     \<lparr> overall_rating = ''Excellent'', overall_color = ''success'', overall_percentage = 90 \<rparr>
   \<and> calculateOverallRating
     [domainScoreWith 1213 (replicate 202 (scoredItem 4) @ replicate 135 (scoredItem 3))]
     DEFAULT_OVERALL_RATING_THRESHOLDS =
     \<lparr> overall_rating = ''Unknown'', overall_color = ''gray'', overall_percentage = double (8999 / 100) \<rparr>
   \<and> calculateOverallRating
     [domainScoreWith 2 (replicate 1 (scoredItem 2))] DEFAULT_OVERALL_RATING_THRESHOLDS =
     \<lparr> overall_rating = ''Weak'', overall_color = ''warning'', overall_percentage = 50 \<rparr>
   \<and> calculateOverallRating
     [domainScoreWith 3333 (replicate 1666 (scoredItem 2) @ replicate 1 (scoredItem 1))]
     DEFAULT_OVERALL_RATING_THRESHOLDS =
     \<lparr> overall_rating = ''Unknown'', overall_color = ''gray'', overall_percentage = double (4999 / 100) \<rparr>
   \<and> calculateOverallRating
     [domainScoreWith 25 (replicate 4 (scoredItem 4) @ replicate 3 (scoredItem 3))]
     DEFAULT_OVERALL_RATING_THRESHOLDS =
     \<lparr> overall_rating = ''Unknown'', overall_color = ''gray'', overall_percentage = double (8929 / 100) \<rparr>"
  by (simp add: calculateOverallRating_def calculateGrandTotal_def totalMaxScore_def
      domainScoreWith_def countsTowardMax_def scoredItem_def percent_values double_values
      DEFAULT_OVERALL_RATING_THRESHOLDS_def inBand_def str_or_def)

text \<open>
  C2 (calculateDomainScores, zero-rating exclusion). For every domain, \<open>total\<close> is the sum
  of the ratings of exactly those items whose entry has a rating that is a number other
  than 0, so an item rated 0 adds nothing to the numerator. It is not kept out of the
  denominator. With a first item of \<open>maxScore\<close> 5 rated 0 and a second item of
  \<open>maxScore\<close> 4 rated 3, the only included item is the second and the included items'
  maximum is 4, which gives 75 percent; the function multiplies the number of included
  items by the \<open>maxScore\<close> of the first item, the one rated 0, divides 3 by 5 and
  reports 60. Where both items have \<open>maxScore\<close> 4 the result is total 3 and percentage 75.
\<close>

theorem C2_zero_rated_first_item:
  "map total (calculateDomainScores t domains scores) =
     map (\<lambda>d. sum_list (map (ratingOf scores) (includedItems scores d))) domains
   \<and> map (\<lambda>ds. (total ds, percentage ds))
        (calculateDomainScores t [rubricDomain [rubricItem ''a'' 5, rubricItem ''b'' 4]]
           [(''a'', rated 0), (''b'', rated 3)]) = [(3, 60)]
   \<and> includedItems [(''a'', rated 0), (''b'', rated 3)]
        (rubricDomain [rubricItem ''a'' 5, rubricItem ''b'' 4]) = [rubricItem ''b'' 4]
   \<and> specMaxPossible [(''a'', rated 0), (''b'', rated 3)]
        (rubricDomain [rubricItem ''a'' 5, rubricItem ''b'' 4]) = 4
   \<and> percentOf 3 (specMaxPossible [(''a'', rated 0), (''b'', rated 3)]
        (rubricDomain [rubricItem ''a'' 5, rubricItem ''b'' 4])) = 75
   \<and> map (\<lambda>ds. (total ds, percentage ds))
        (calculateDomainScores t [rubricDomain [rubricItem ''a'' 4, rubricItem ''b'' 4]]
           [(''a'', rated 0), (''b'', rated 3)]) = [(3, 75)]"
proof -
  have gen: "map total (calculateDomainScores t domains scores) =
     map (\<lambda>d. sum_list (map (ratingOf scores) (includedItems scores d))) domains"
    by (simp add: calculateDomainScores_def total_domainScoreOf)
  have inc: "includedItems [(''a'', rated 0), (''b'', rated 3)]
        (rubricDomain [rubricItem ''a'' 5, rubricItem ''b'' 4]) = [rubricItem ''b'' 4]"
    "includedItems [(''a'', rated 0), (''b'', rated 3)]
        (rubricDomain [rubricItem ''a'' 4, rubricItem ''b'' 4]) = [rubricItem ''b'' 4]"
    by (simp_all add: includedItems_def isRated_def rubricDomain_def rubricItem_def rated_def)
  have rb: "ratingOf [(''a'', rated 0), (''b'', rated 3)] (rubricItem ''b'' 4) = 3"
    by (simp add: ratingOf_def rubricItem_def rated_def)
  have m: "specMaxPossible [(''a'', rated 0), (''b'', rated 3)]
        (rubricDomain [rubricItem ''a'' 5, rubricItem ''b'' 4]) = 4"
    by (simp add: specMaxPossible_def inc) (simp add: rubricItem_def)
  have p: "percentOf 3 4 = 75"
    by (simp add: percentOf_def roundHalfUp2_def floor_numeral_fraction)
  have bug: "map (\<lambda>ds. (total ds, percentage ds))
        (calculateDomainScores t [rubricDomain [rubricItem ''a'' 5, rubricItem ''b'' 4]]
           [(''a'', rated 0), (''b'', rated 3)]) = [(3, 60)]"
    by (simp add: calculateDomainScores_def total_domainScoreOf percentage_domainScoreOf inc rb
        maxPossibleScore_def percent_values)
      (simp add: rubricDomain_def rubricItem_def percent_values)
  have ex: "map (\<lambda>ds. (total ds, percentage ds))
        (calculateDomainScores t [rubricDomain [rubricItem ''a'' 4, rubricItem ''b'' 4]]
           [(''a'', rated 0), (''b'', rated 3)]) = [(3, 75)]"
    by (simp add: calculateDomainScores_def total_domainScoreOf percentage_domainScoreOf inc rb
        maxPossibleScore_def percent_values)
      (simp add: rubricDomain_def rubricItem_def percent_values)
  show ?thesis
    unfolding m using gen bug inc(1) p ex by blast
qed

text \<open>
  C3 (calculateDomainScores, the denominator). A domain whose items differ in
  \<open>maxScore\<close>: item \<open>a\<close> with \<open>maxScore\<close> 4 rated 4 and item \<open>b\<close> with \<open>maxScore\<close> 5
  rated 5. The included items' own \<open>maxScore\<close> values sum to 9, which would give 100
  percent; the function multiplies the number of included items by the \<open>maxScore\<close> of
  the first item, divides by 8 and reports 112.5.
\<close>

theorem C3_first_item_maxScore:
  "map (\<lambda>ds. (total ds, percentage ds))
     (calculateDomainScores t [rubricDomain [rubricItem ''a'' 4, rubricItem ''b'' 5]]
        [(''a'', rated 4), (''b'', rated 5)]) = [(9, 225 / 2)]
   \<and> specMaxPossible [(''a'', rated 4), (''b'', rated 5)]
        (rubricDomain [rubricItem ''a'' 4, rubricItem ''b'' 5]) = 9
   \<and> percentOf 9 (specMaxPossible [(''a'', rated 4), (''b'', rated 5)]
        (rubricDomain [rubricItem ''a'' 4, rubricItem ''b'' 5])) = 100"
proof -
  have inc: "includedItems [(''a'', rated 4), (''b'', rated 5)]
        (rubricDomain [rubricItem ''a'' 4, rubricItem ''b'' 5]) = [rubricItem ''a'' 4, rubricItem ''b'' 5]"
    by (simp add: includedItems_def isRated_def rubricDomain_def rubricItem_def rated_def)
  have r: "ratingOf [(''a'', rated 4), (''b'', rated 5)] (rubricItem ''a'' 4) = 4"
    "ratingOf [(''a'', rated 4), (''b'', rated 5)] (rubricItem ''b'' 5) = 5"
    by (simp_all add: ratingOf_def rubricItem_def rated_def)
  have m: "specMaxPossible [(''a'', rated 4), (''b'', rated 5)]
        (rubricDomain [rubricItem ''a'' 4, rubricItem ''b'' 5]) = 9"
    by (simp add: specMaxPossible_def inc) (simp add: rubricItem_def)
  have p: "percentOf 9 9 = 100"
    by (simp add: percentOf_def roundHalfUp2_def floor_numeral_fraction)
  have c: "map (\<lambda>ds. (total ds, percentage ds))
     (calculateDomainScores t [rubricDomain [rubricItem ''a'' 4, rubricItem ''b'' 5]]
        [(''a'', rated 4), (''b'', rated 5)]) = [(9, 225 / 2)]"
    by (simp add: calculateDomainScores_def total_domainScoreOf percentage_domainScoreOf inc r
        maxPossibleScore_def percent_values)
      (simp add: rubricDomain_def rubricItem_def percent_values)
  show ?thesis
    unfolding m using c p by blast
qed

text \<open>
  C4 (SUBMIT). For a SUBMIT request that passes the rate limiter, carries a session and a
  body, and names an existing observation, with the audit table writable: the answer is
  200 exactly when the actor is the observer of record or has role \<open>ADMIN\<close>, the status
  is \<open>DRAFT\<close> and some item score row has a rating other than \<open>null\<close> (a rating of 0
  counts). Then the status becomes \<open>SUBMITTED\<close>, nothing else of the observation
  changes and one audit entry is appended. Otherwise the first failing check decides the
  answer (403 \<open>Forbidden\<close>, 400 for the status, 400 for the ratings, three different
  bodies), and the database, audit table included, is unchanged.
\<close>

theorem C4_submit_gate:
  assumes "passesRateLimit e r s"
    and "session r = Some u"
    and "body r = Some b"
    and "action b = Some ''SUBMIT''"
    and "findUnique (param_id r) (database s) = Some ob"
    and "\<not> auditLogFails e"
  shows "(statusCode (fst (transition_PUT e r s)) = 200 \<longleftrightarrow>
            isObserverOrAdmin u ob \<and> status ob = ''DRAFT''
            \<and> hasNonNullRating (itemScoresOf (param_id r) (database s)))
    \<and> (isObserverOrAdmin u ob \<and> status ob = ''DRAFT''
          \<and> hasNonNullRating (itemScoresOf (param_id r) (database s)) \<longrightarrow>
        fst (transition_PUT e r s) = Response 200 (ObservationBody (ob\<lparr>status := ''SUBMITTED''\<rparr>)) []
        \<and> findUnique (param_id r) (database (snd (transition_PUT e r s))) = Some (ob\<lparr>status := ''SUBMITTED''\<rparr>)
        \<and> database (snd (transition_PUT e r s)) =
            (observation_update (param_id r) (\<lambda>x. x\<lparr>status := ''SUBMITTED''\<rparr>) (database s))
              \<lparr>auditLogs := auditLogs (database s) @ [submitAudit (param_id r) u ob]\<rparr>)
    \<and> (\<not> isObserverOrAdmin u ob \<longrightarrow>
        fst (transition_PUT e r s) = json_error 403 ''Forbidden''
        \<and> database (snd (transition_PUT e r s)) = database s)
    \<and> (isObserverOrAdmin u ob \<and> status ob \<noteq> ''DRAFT'' \<longrightarrow>
        fst (transition_PUT e r s) = json_error 400 ''Only draft observations can be submitted''
        \<and> database (snd (transition_PUT e r s)) = database s)
    \<and> (isObserverOrAdmin u ob \<and> status ob = ''DRAFT''
          \<and> \<not> hasNonNullRating (itemScoresOf (param_id r) (database s)) \<longrightarrow>
        fst (transition_PUT e r s) =
          json_error 400 ''At least one rubric item must be rated before submission''
        \<and> database (snd (transition_PUT e r s)) = database s)
    \<and> distinct [json_error 403 ''Forbidden'',
                 json_error 400 ''Only draft observations can be submitted'',
                 json_error 400 ''At least one rubric item must be rated before submission'']"
proof -
  note sw = transition_PUT_switch [OF assms(1) assms(2) assms(3) assms(4) _ assms(5), simplified]
  have upd: "findUnique (param_id r) (observation_update (param_id r) (\<lambda>x. x\<lparr>status := ''SUBMITTED''\<rparr>) (database s))
             = Some (ob\<lparr>status := ''SUBMITTED''\<rparr>)"
    using findUnique_observation_update [OF assms(5), of "\<lambda>x. x\<lparr>status := ''SUBMITTED''\<rparr>"] by simp
  show ?thesis
  proof (cases "isObserverOrAdmin u ob")
    case False
    then show ?thesis
      by (simp add: sw submit_switch json_error_def)
  next
    case actor: True
    show ?thesis
    proof (cases "status ob = ''DRAFT''")
      case False
      with actor show ?thesis
        by (simp add: sw submit_switch json_error_def)
    next
      case draft: True
      show ?thesis
      proof (cases "hasNonNullRating (itemScoresOf (param_id r) (database s))")
        case False
        with actor draft show ?thesis
          by (simp add: sw submit_switch json_error_def)
      next
        case True
        with actor draft upd show ?thesis
          by (simp add: sw submit_switch audit_then_respond_ok [OF assms(6)] toUpperCase_actions
              submitAudit_def findUnique_auditLogs observation_update_frame json_error_def)
      qed
    qed
  qed
qed

theorem C4_submit_gate_witness:
  "passesRateLimit (exampleEnv False) (exampleRequest observerUser (transitionBody ''SUBMIT''))
     (exampleServer (exampleObservation ''DRAFT'') [exampleRow (Some 0)])
   \<and> isObserverOrAdmin observerUser (exampleObservation ''DRAFT'')
   \<and> hasNonNullRating (itemScoresOf ''obs1''
        (database (exampleServer (exampleObservation ''DRAFT'') [exampleRow (Some 0)])))
   \<and> fst (transition_PUT (exampleEnv False) (exampleRequest observerUser (transitionBody ''SUBMIT''))
        (exampleServer (exampleObservation ''DRAFT'') [exampleRow (Some 0)])) =
      Response 200 (ObservationBody (exampleObservation ''SUBMITTED'')) []
   \<and> \<not> hasNonNullRating (itemScoresOf ''obs1''
        (database (exampleServer (exampleObservation ''DRAFT'') [exampleRow None])))
   \<and> fst (transition_PUT (exampleEnv False) (exampleRequest observerUser (transitionBody ''SUBMIT''))
        (exampleServer (exampleObservation ''DRAFT'') [exampleRow None])) =
      json_error 400 ''At least one rubric item must be rated before submission''
   \<and> database (snd (transition_PUT (exampleEnv False)
        (exampleRequest observerUser (transitionBody ''SUBMIT''))
        (exampleServer (exampleObservation ''DRAFT'') [exampleRow None]))) =
      database (exampleServer (exampleObservation ''DRAFT'') [exampleRow None])"
proof -
  have actor: "isObserverOrAdmin observerUser (exampleObservation ''DRAFT'')"
    by (simp add: isObserverOrAdmin_def observerUser_def exampleObservation_def)
  have st: "status (exampleObservation ''DRAFT'') = ''DRAFT''"
    "(exampleObservation ''DRAFT'')\<lparr>status := ''SUBMITTED''\<rparr> = exampleObservation ''SUBMITTED''"
    by (simp_all add: exampleObservation_def)
  have r0: "hasNonNullRating (itemScoresOf ''obs1''
        (database (exampleServer (exampleObservation ''DRAFT'') [exampleRow (Some 0)])))"
    by (simp add: hasNonNullRating_def itemScoresOf_def exampleServer_def exampleRow_def)
  have rn: "\<not> hasNonNullRating (itemScoresOf ''obs1''
        (database (exampleServer (exampleObservation ''DRAFT'') [exampleRow None])))"
    by (simp add: hasNonNullRating_def itemScoresOf_def exampleServer_def exampleRow_def)
  have req: "param_id (exampleRequest observerUser (transitionBody ''SUBMIT'')) = ''obs1''"
    "session (exampleRequest observerUser (transitionBody ''SUBMIT'')) = Some observerUser"
    "body (exampleRequest observerUser (transitionBody ''SUBMIT'')) = Some (transitionBody ''SUBMIT'')"
    "action (transitionBody ''SUBMIT'') = Some ''SUBMIT''"
    "\<not> auditLogFails (exampleEnv False)"
    by (simp_all add: exampleRequest_def transitionBody_def exampleEnv_def)
  note a = C4_submit_gate [OF
      example_passesRateLimit [of False observerUser "transitionBody ''SUBMIT''"
        "exampleObservation ''DRAFT''" "[exampleRow (Some 0)]"]
      req(2) req(3) req(4)
      example_findUnique [of observerUser "transitionBody ''SUBMIT''" "''DRAFT''" "[exampleRow (Some 0)]"]
      req(5)]
  note b = C4_submit_gate [OF
      example_passesRateLimit [of False observerUser "transitionBody ''SUBMIT''"
        "exampleObservation ''DRAFT''" "[exampleRow None]"]
      req(2) req(3) req(4)
      example_findUnique [of observerUser "transitionBody ''SUBMIT''" "''DRAFT''" "[exampleRow None]"]
      req(5)]
  show ?thesis
    using a b actor st r0 rn example_passesRateLimit [of False observerUser "transitionBody ''SUBMIT''"]
    by (simp add: req(1))
qed

text \<open>
  C5 (FINALIZED is terminal). When the observation a request names has status
  \<open>FINALIZED\<close>, the transition route (whatever the action), the edit route and the delete
  route all answer with a status code of 400 or more and leave the database as it was,
  whoever the actor is and whatever the request carries.
\<close>

theorem C5_finalized_terminal:
  assumes "findUnique i (database s) = Some ob"
    and "status ob = ''FINALIZED''"
    and "param_id transitionRequest = i"
    and "param_id editRequest = i"
    and "param_id deleteRequest = i"
  shows "rejectedWithoutChange (transition_PUT e transitionRequest s) s
       \<and> rejectedWithoutChange (observation_PUT e editRequest s) s
       \<and> rejectedWithoutChange (observation_DELETE e deleteRequest s) s"
  using assms transition_PUT_finalized [of transitionRequest s ob e]
    observation_PUT_finalized [of editRequest s ob e]
    observation_DELETE_finalized [of deleteRequest s ob e]
  by simp

theorem C5_finalized_terminal_witness:
  "findUnique ''obs1'' (database (exampleServer (exampleObservation ''FINALIZED'') [exampleRow (Some 3)])) =
     Some (exampleObservation ''FINALIZED'')
   \<and> status (exampleObservation ''FINALIZED'') = ''FINALIZED''
   \<and> rejectedWithoutChange
        (transition_PUT (exampleEnv False) (exampleRequest adminUser (transitionBody ''RETURN_TO_DRAFT''))
           (exampleServer (exampleObservation ''FINALIZED'') [exampleRow (Some 3)]))
        (exampleServer (exampleObservation ''FINALIZED'') [exampleRow (Some 3)])
   \<and> rejectedWithoutChange
        (transition_PUT (exampleEnv False) (exampleRequest adminUser (transitionBody ''SUBMIT''))
           (exampleServer (exampleObservation ''FINALIZED'') [exampleRow (Some 3)]))
        (exampleServer (exampleObservation ''FINALIZED'') [exampleRow (Some 3)])
   \<and> rejectedWithoutChange
        (observation_PUT (exampleEnv False) (exampleRequest adminUser (editBody ''6B''))
           (exampleServer (exampleObservation ''FINALIZED'') [exampleRow (Some 3)]))
        (exampleServer (exampleObservation ''FINALIZED'') [exampleRow (Some 3)])
   \<and> rejectedWithoutChange
        (observation_DELETE (exampleEnv False) (exampleRequest adminUser ())
           (exampleServer (exampleObservation ''FINALIZED'') [exampleRow (Some 3)]))
        (exampleServer (exampleObservation ''FINALIZED'') [exampleRow (Some 3)])"
proof -
  have f: "findUnique ''obs1'' (database (exampleServer (exampleObservation ''FINALIZED'') [exampleRow (Some 3)])) =
     Some (exampleObservation ''FINALIZED'')"
    by (simp add: findUnique_def exampleServer_def exampleObservation_def)
  have st: "status (exampleObservation ''FINALIZED'') = ''FINALIZED''"
    by (simp add: exampleObservation_def)
  have p: "\<And>u b. param_id (exampleRequest u b) = ''obs1''"
    by (simp add: exampleRequest_def)
  note a = C5_finalized_terminal [OF f st p p p, of "exampleEnv False"
      adminUser "transitionBody ''RETURN_TO_DRAFT''" adminUser "editBody ''6B''" adminUser "()"]
  note b = C5_finalized_terminal [OF f st p p p, of "exampleEnv False"
      adminUser "transitionBody ''SUBMIT''" adminUser "editBody ''6B''" adminUser "()"]
  show ?thesis using f st a b by blast
qed

text \<open>
  C6 (RETURN_TO_DRAFT). A RETURN_TO_DRAFT request by a \<open>REVIEWER\<close> or \<open>ADMIN\<close> on an
  observation whose status is \<open>SUBMITTED\<close> or \<open>REVIEWED\<close> is answered 200 with the
  observation in which status is \<open>DRAFT\<close> and reviewer id, review time stamp and
  reviewer comments are cleared; in the database exactly these four fields of that
  observation change, one audit entry is appended, and the item score rows and the
  attachments are as before.
\<close>

theorem C6_return_to_draft_frame:
  assumes "passesRateLimit e r s"
    and "session r = Some u"
    and "isReviewerOrAdmin u"
    and "body r = Some b"
    and "action b = Some ''RETURN_TO_DRAFT''"
    and "findUnique (param_id r) (database s) = Some ob"
    and "status ob = ''SUBMITTED'' \<or> status ob = ''REVIEWED''"
    and "\<not> auditLogFails e"
  shows "fst (transition_PUT e r s) =
           Response 200 (ObservationBody
             (ob\<lparr>status := ''DRAFT'', reviewerId := None, reviewedAt := None,
                 reviewerComments := None\<rparr>)) []
       \<and> database (snd (transition_PUT e r s)) =
           (database s)
             \<lparr>observations :=
                map (\<lambda>x. if observation_id x = param_id r
                          then x\<lparr>status := ''DRAFT'', reviewerId := None, reviewedAt := None,
                                 reviewerComments := None\<rparr>
                          else x) (observations (database s)),
              auditLogs := auditLogs (database s) @ [returnToDraftAudit (param_id r) u ob]\<rparr>
       \<and> itemScoreRows (database (snd (transition_PUT e r s))) = itemScoreRows (database s)
       \<and> attachments (database (snd (transition_PUT e r s))) = attachments (database s)"
proof -
  note sw = transition_PUT_switch [OF assms(1) assms(2) assms(4) assms(5) _ assms(6), simplified]
  have st: "status (returnToDraftFields ob) = ''DRAFT''"
    by (simp add: returnToDraftFields_def)
  show ?thesis
    by (simp add: sw return_switch [OF assms(3) assms(7)] audit_then_respond_ok [OF assms(8)]
        toUpperCase_actions st returnToDraftAudit_def observation_update_def)
      (simp add: returnToDraftFields_def)
qed

theorem C6_return_to_draft_frame_witness:
  "passesRateLimit (exampleEnv False) (exampleRequest reviewerUser (transitionBody ''RETURN_TO_DRAFT''))
     (exampleServer (reviewedObservation ''REVIEWED'') [exampleRow (Some 3)])
   \<and> isReviewerOrAdmin reviewerUser
   \<and> status (reviewedObservation ''REVIEWED'') = ''REVIEWED''
   \<and> reviewerId (reviewedObservation ''REVIEWED'') = Some ''u2''
   \<and> transition_PUT (exampleEnv False) (exampleRequest reviewerUser (transitionBody ''RETURN_TO_DRAFT''))
        (exampleServer (reviewedObservation ''REVIEWED'') [exampleRow (Some 3)]) =
      (Response 200 (ObservationBody (exampleObservation ''DRAFT'')) [],
       \<lparr> rateStore = [''unknown'' \<mapsto> \<lparr> rate_count = 1, rate_resetTime = 901000 \<rparr>],
         database =
           \<lparr> observations = [exampleObservation ''DRAFT''],
             itemScoreRows = [exampleRow (Some 3)],
             attachments = [],
             auditLogs = [returnToDraftAudit ''obs1'' reviewerUser (reviewedObservation ''REVIEWED'')] \<rparr> \<rparr>)"
proof -
  have found: "findUnique (param_id (exampleRequest reviewerUser (transitionBody ''RETURN_TO_DRAFT'')))
      (database (exampleServer (reviewedObservation ''REVIEWED'') [exampleRow (Some 3)])) =
      Some (reviewedObservation ''REVIEWED'')"
    by (simp add: findUnique_def exampleServer_def exampleRequest_def reviewedObservation_def
        exampleObservation_def)
  have role: "isReviewerOrAdmin reviewerUser"
    by (simp add: isReviewerOrAdmin_def reviewerUser_def)
  have st: "status (reviewedObservation ''REVIEWED'') = ''SUBMITTED''
            \<or> status (reviewedObservation ''REVIEWED'') = ''REVIEWED''"
    by (simp add: reviewedObservation_def exampleObservation_def)
  have req: "session (exampleRequest reviewerUser (transitionBody ''RETURN_TO_DRAFT'')) = Some reviewerUser"
    "body (exampleRequest reviewerUser (transitionBody ''RETURN_TO_DRAFT'')) =
       Some (transitionBody ''RETURN_TO_DRAFT'')"
    "action (transitionBody ''RETURN_TO_DRAFT'') = Some ''RETURN_TO_DRAFT''"
    "\<not> auditLogFails (exampleEnv False)"
    by (simp_all add: exampleRequest_def transitionBody_def exampleEnv_def)
  note a = C6_return_to_draft_frame [OF
      example_passesRateLimit [of False reviewerUser "transitionBody ''RETURN_TO_DRAFT''"
        "reviewedObservation ''REVIEWED''" "[exampleRow (Some 3)]"]
      req(1) role req(2) req(3) found st req(4)]
  have cleared: "(reviewedObservation ''REVIEWED'')
      \<lparr>status := ''DRAFT'', reviewerId := None, reviewedAt := None, reviewerComments := None\<rparr> =
      exampleObservation ''DRAFT''"
    by (simp add: reviewedObservation_def exampleObservation_def)
  have store: "rateStore (snd (transition_PUT (exampleEnv False)
        (exampleRequest reviewerUser (transitionBody ''RETURN_TO_DRAFT''))
        (exampleServer (reviewedObservation ''REVIEWED'') [exampleRow (Some 3)]))) =
      [''unknown'' \<mapsto> \<lparr> rate_count = 1, rate_resetTime = 901000 \<rparr>]"
    unfolding transition_PUT_switch [OF
      example_passesRateLimit [of False reviewerUser "transitionBody ''RETURN_TO_DRAFT''"
        "reviewedObservation ''REVIEWED''" "[exampleRow (Some 3)]"]
      req(1) req(2) req(3) _ found, simplified]
    by (simp add: return_switch [OF role st] audit_then_respond_def auditLog_create_def
        rateLimit_def exampleServer_def exampleRequest_def getClientIdentifier_def str_or_def
        exampleEnv_def Let_def)
  have db: "database (snd (transition_PUT (exampleEnv False)
        (exampleRequest reviewerUser (transitionBody ''RETURN_TO_DRAFT''))
        (exampleServer (reviewedObservation ''REVIEWED'') [exampleRow (Some 3)]))) =
      \<lparr> observations = [exampleObservation ''DRAFT''],
             itemScoreRows = [exampleRow (Some 3)],
             attachments = [],
             auditLogs = [returnToDraftAudit ''obs1'' reviewerUser (reviewedObservation ''REVIEWED'')] \<rparr>"
    using a cleared
    by (simp add: exampleServer_def exampleRequest_def reviewedObservation_def exampleObservation_def)
  have "transition_PUT (exampleEnv False) (exampleRequest reviewerUser (transitionBody ''RETURN_TO_DRAFT''))
        (exampleServer (reviewedObservation ''REVIEWED'') [exampleRow (Some 3)]) =
      (Response 200 (ObservationBody (exampleObservation ''DRAFT'')) [],
       \<lparr> rateStore = [''unknown'' \<mapsto> \<lparr> rate_count = 1, rate_resetTime = 901000 \<rparr>],
         database =
           \<lparr> observations = [exampleObservation ''DRAFT''],
             itemScoreRows = [exampleRow (Some 3)],
             attachments = [],
             auditLogs = [returnToDraftAudit ''obs1'' reviewerUser (reviewedObservation ''REVIEWED'')] \<rparr> \<rparr>)"
    using a cleared store db
    by (simp add: prod_eq_iff server.equality)
  then show ?thesis
    using role st example_passesRateLimit [of False reviewerUser "transitionBody ''RETURN_TO_DRAFT''"
        "reviewedObservation ''REVIEWED''" "[exampleRow (Some 3)]"]
    by (simp add: reviewedObservation_def exampleObservation_def)
qed

text \<open>
  C7 (calculateOverallRating, the percentage). On the empty list the result is
  \<open>No Data\<close>, \<open>gray\<close>, 0, whatever the thresholds. On a non-empty list let \<open>G\<close> be the sum
  of the domain totals and \<open>M\<close> four times the number of item scores that have a rating
  other than 0; the \<open>maxScore\<close> of the items does not occur. If \<open>M\<close> is 0 the percentage
  is 0. Otherwise the percentage is the binary64 number nearest to \<open>n / 100\<close> for an
  integer \<open>n\<close> that differs from \<open>10000 * G / M\<close> by at most one half plus the error of
  three binary64 operations. If \<open>10000 * G / M\<close> is not exactly halfway between two
  integers (and \<open>10000 * |G|\<close> is below \<open>2^50\<close>), this \<open>n / 100\<close> is \<open>100 * G / M\<close> rounded
  to two decimals.
\<close>

theorem C7_overall_percentage:
  "calculateOverallRating [] thresholds =
     \<lparr> overall_rating = ''No Data'', overall_color = ''gray'', overall_percentage = 0 \<rparr>
   \<and> (domainScores \<noteq> [] \<and> specTotalMaxScore domainScores = 0 \<longrightarrow>
        overall_percentage (calculateOverallRating domainScores thresholds) = 0)
   \<and> (domainScores \<noteq> [] \<and> specTotalMaxScore domainScores \<noteq> 0 \<longrightarrow>
        (\<exists>n. overall_percentage (calculateOverallRating domainScores thresholds) =
               double (of_int n / 100)
           \<and> \<bar>(of_int n :: rat) - 10000 * of_int (specGrandTotal domainScores)
                            / of_int (specTotalMaxScore domainScores)\<bar>
             \<le> 1 / 2 + \<bar>10000 * of_int (specGrandTotal domainScores)
                            / of_int (specTotalMaxScore domainScores)\<bar> / 2 ^ 51))
   \<and> (domainScores \<noteq> [] \<and> specTotalMaxScore domainScores \<noteq> 0
        \<and> 10000 * \<bar>specGrandTotal domainScores\<bar> < 2 ^ 50
        \<and> \<not> exactTie (10000 * of_int (specGrandTotal domainScores)
                         / of_int (specTotalMaxScore domainScores)) \<longrightarrow>
        overall_percentage (calculateOverallRating domainScores thresholds) =
          double (roundHalfUp2 (100 * of_int (specGrandTotal domainScores)
                                 / of_int (specTotalMaxScore domainScores))))"
proof -
  have empty: "calculateOverallRating [] thresholds =
     \<lparr> overall_rating = ''No Data'', overall_color = ''gray'', overall_percentage = 0 \<rparr>"
    by (simp add: calculateOverallRating_def)
  have zero: "overall_percentage (calculateOverallRating domainScores thresholds) = 0"
    if "domainScores \<noteq> []" and "specTotalMaxScore domainScores = 0"
    using that by (simp add: overall_percentage_eq round2_zero)
  have mpos: "0 < specTotalMaxScore domainScores" if "specTotalMaxScore domainScores \<noteq> 0"
    using that specTotalMaxScore_nonneg [of domainScores] by linarith
  have code: "overall_percentage (calculateOverallRating domainScores thresholds) =
      round2 (js_mul (js_div (of_int (specGrandTotal domainScores))
                              (of_int (specTotalMaxScore domainScores))) 100)"
    if "domainScores \<noteq> []" and "specTotalMaxScore domainScores \<noteq> 0"
    using that(1) mpos [OF that(2)] by (simp add: overall_percentage_eq)
  have near: "\<exists>n. overall_percentage (calculateOverallRating domainScores thresholds) =
               double (of_int n / 100)
           \<and> \<bar>(of_int n :: rat) - 10000 * of_int (specGrandTotal domainScores)
                            / of_int (specTotalMaxScore domainScores)\<bar>
             \<le> 1 / 2 + \<bar>10000 * of_int (specGrandTotal domainScores)
                            / of_int (specTotalMaxScore domainScores)\<bar> / 2 ^ 51"
    if "domainScores \<noteq> []" and "specTotalMaxScore domainScores \<noteq> 0"
    using round2_percentage [of "of_int (specGrandTotal domainScores)"
          "of_int (specTotalMaxScore domainScores)"]
    unfolding code [OF that] .
  have exact: "overall_percentage (calculateOverallRating domainScores thresholds) =
          double (roundHalfUp2 (100 * of_int (specGrandTotal domainScores)
                                 / of_int (specTotalMaxScore domainScores)))"
    if "domainScores \<noteq> []" and "specTotalMaxScore domainScores \<noteq> 0"
      and "10000 * \<bar>specGrandTotal domainScores\<bar> < 2 ^ 50"
      and "\<not> exactTie (10000 * of_int (specGrandTotal domainScores)
                         / of_int (specTotalMaxScore domainScores))"
    using round2_percentage_far [OF farFromTie_ratio [OF mpos [OF that(2)] that(3) that(4)]]
    unfolding code [OF that(1) that(2)] .
  show ?thesis using empty zero near exact by blast
qed

theorem C7_overall_percentage_witness:
  "[domainScoreWith 25 (replicate 4 (scoredItem 4) @ replicate 3 (scoredItem 3)
                         @ [unratedItem, scoredItem 0])] \<noteq> []
   \<and> specGrandTotal [domainScoreWith 25 (replicate 4 (scoredItem 4) @ replicate 3 (scoredItem 3)
                         @ [unratedItem, scoredItem 0])] = 25
   \<and> specTotalMaxScore [domainScoreWith 25 (replicate 4 (scoredItem 4) @ replicate 3 (scoredItem 3)
                         @ [unratedItem, scoredItem 0])] = 28
   \<and> \<not> exactTie (10000 * 25 / 28)
   \<and> roundHalfUp2 (100 * 25 / 28) = 8929 / 100
   \<and> overall_percentage (calculateOverallRating
         [domainScoreWith 25 (replicate 4 (scoredItem 4) @ replicate 3 (scoredItem 3)
                         @ [unratedItem, scoredItem 0])] DEFAULT_OVERALL_RATING_THRESHOLDS) =
       double (8929 / 100)"
proof -
  have g: "specGrandTotal [domainScoreWith 25 (replicate 4 (scoredItem 4) @ replicate 3 (scoredItem 3)
                         @ [unratedItem, scoredItem 0])] = 25"
    by (simp add: specGrandTotal_def domainScoreWith_def)
  have m: "specTotalMaxScore [domainScoreWith 25 (replicate 4 (scoredItem 4) @ replicate 3 (scoredItem 3)
                         @ [unratedItem, scoredItem 0])] = 28"
    by (simp add: specTotalMaxScore_def domainScoreWith_def scoredItem_def unratedItem_def)
  have f: "\<not> exactTie (10000 * 25 / 28)"
    by (simp add: exactTie_def floor_numeral_fraction)
  have s: "10000 * \<bar>25::int\<bar> < 2 ^ 50"
    by simp
  have r: "roundHalfUp2 (100 * 25 / 28) = 8929 / 100"
    by (simp add: roundHalfUp2_def floor_numeral_fraction)
  have ne: "[domainScoreWith 25 (replicate 4 (scoredItem 4) @ replicate 3 (scoredItem 3)
                         @ [unratedItem, scoredItem 0])] \<noteq> []"
    by simp
  have "overall_percentage (calculateOverallRating
         [domainScoreWith 25 (replicate 4 (scoredItem 4) @ replicate 3 (scoredItem 3)
                         @ [unratedItem, scoredItem 0])] DEFAULT_OVERALL_RATING_THRESHOLDS) =
       double (roundHalfUp2 (100 * 25 / 28))"
    using C7_overall_percentage [of DEFAULT_OVERALL_RATING_THRESHOLDS
        "[domainScoreWith 25 (replicate 4 (scoredItem 4) @ replicate 3 (scoredItem 3)
                         @ [unratedItem, scoredItem 0])]"] ne f s
    by (simp only: g m of_int_numeral) simp
  then show ?thesis
    using ne g m f r by (simp only: r) simp
qed

text \<open>
  At an exact tie the binary64 computation can fall below the tie and round down. Forty
  rated items with total 97 give \<open>10000 * 97 / 160 = 6062.5\<close>: rounding to two decimals
  gives 60.63 (half up), the function returns 60.62. With total 87 the exact value is
  5437.5: rounding gives 54.38 (half up and half to even), the function returns 54.37.
  Eight rated items with total 9 give 2812.5, which the binary64 computation reaches
  exactly: there the function rounds up, to 28.13. So no rule for ties describes it.
\<close>

theorem C7_tie_counterexample:
  "overall_percentage (calculateOverallRating
      [domainScoreWith 97 (replicate 17 (scoredItem 3) @ replicate 23 (scoredItem 2))]
      DEFAULT_OVERALL_RATING_THRESHOLDS) = double (6062 / 100)
   \<and> roundHalfUp2 (100 * 97 / 160) = 6063 / 100
   \<and> double (6062 / 100) \<noteq> double (6063 / 100)
   \<and> overall_percentage (calculateOverallRating
      [domainScoreWith 97 (replicate 17 (scoredItem 3) @ replicate 23 (scoredItem 2))]
      DEFAULT_OVERALL_RATING_THRESHOLDS) \<noteq>
     double (roundHalfUp2 (100 *
       of_int (specGrandTotal [domainScoreWith 97 (replicate 17 (scoredItem 3) @ replicate 23 (scoredItem 2))])
       / of_int (specTotalMaxScore [domainScoreWith 97 (replicate 17 (scoredItem 3) @ replicate 23 (scoredItem 2))])))
   \<and> overall_percentage (calculateOverallRating
      [domainScoreWith 87 (replicate 7 (scoredItem 3) @ replicate 33 (scoredItem 2))]
      DEFAULT_OVERALL_RATING_THRESHOLDS) = double (5437 / 100)
   \<and> roundHalfUp2 (100 * 87 / 160) = 5438 / 100
   \<and> double (5437 / 100) \<noteq> double (5438 / 100)
   \<and> overall_percentage (calculateOverallRating
      [domainScoreWith 9 (replicate 1 (scoredItem 2) @ replicate 7 (scoredItem 1))]
      DEFAULT_OVERALL_RATING_THRESHOLDS) = double (2813 / 100)
   \<and> exactTie (10000 * 9 / 32)
   \<and> double (2813 / 100) \<noteq> double (2812 / 100)"
proof -
  have r: "roundHalfUp2 (100 * 97 / 160) = 6063 / 100" "roundHalfUp2 (100 * 87 / 160) = 5438 / 100"
    by (simp_all add: roundHalfUp2_def floor_numeral_fraction)
  have g: "specGrandTotal [domainScoreWith 97 (replicate 17 (scoredItem 3) @ replicate 23 (scoredItem 2))] = 97"
    "specTotalMaxScore [domainScoreWith 97 (replicate 17 (scoredItem 3) @ replicate 23 (scoredItem 2))] = 160"
    by (simp_all add: specGrandTotal_def specTotalMaxScore_def domainScoreWith_def scoredItem_def)
  have c: "overall_percentage (calculateOverallRating
      [domainScoreWith 97 (replicate 17 (scoredItem 3) @ replicate 23 (scoredItem 2))]
      DEFAULT_OVERALL_RATING_THRESHOLDS) = double (6062 / 100)"
    "overall_percentage (calculateOverallRating
      [domainScoreWith 87 (replicate 7 (scoredItem 3) @ replicate 33 (scoredItem 2))]
      DEFAULT_OVERALL_RATING_THRESHOLDS) = double (5437 / 100)"
    "overall_percentage (calculateOverallRating
      [domainScoreWith 9 (replicate 1 (scoredItem 2) @ replicate 7 (scoredItem 1))]
      DEFAULT_OVERALL_RATING_THRESHOLDS) = double (2813 / 100)"
    by (simp_all add: calculateOverallRating_def calculateGrandTotal_def totalMaxScore_def
        domainScoreWith_def countsTowardMax_def scoredItem_def percent_values Let_def)
  have d: "double (6062 / 100) \<noteq> double (6063 / 100)" "double (5437 / 100) \<noteq> double (5438 / 100)"
    "double (2813 / 100) \<noteq> double (2812 / 100)"
    unfolding double_values by simp_all
  have e: "exactTie (10000 * 9 / 32)"
    by (simp add: exactTie_def floor_numeral_fraction)
  show ?thesis
    unfolding g of_int_numeral r c using d e by simp
qed

text \<open>
  C8 (validateObservationData). The error list is the concatenation, in
  order, of the messages of the violated rules among: \<open>totalStudents \<le> 0\<close>;
  \<open>presentStudents < 0\<close>; \<open>presentStudents > totalStudents\<close>; no entry with a rating that
  is neither \<open>undefined\<close> nor 0 (the test is the source's, so \<open>null\<close> passes it). The
  four messages differ, and \<open>isValid\<close> holds exactly
  when the list is empty. For \<open>totalStudents = -1\<close>, \<open>presentStudents = -1\<close> and no
  ratings there are three errors, since \<open>-1 > -1\<close> is false; for \<open>totalStudents = -2\<close>,
  \<open>presentStudents = -1\<close> and no ratings there are four.
\<close>

theorem C8_validation_rules:
  "errors (validateObservationData d) =
     violated (data_totalStudents d \<le> 0) ''Total students must be greater than 0'' @
     violated (data_presentStudents d < 0) ''Present students cannot be negative'' @
     violated (data_presentStudents d > data_totalStudents d)
       ''Present students cannot exceed total students'' @
     violated (\<not> (\<exists>e \<in> set (map snd (data_itemScores d)). rating e \<noteq> Undefined \<and> rating e \<noteq> Num 0))
       ''At least one rubric item must be scored''
   \<and> isValid (validateObservationData d) = (errors (validateObservationData d) = [])
   \<and> distinct [''Total students must be greater than 0'', ''Present students cannot be negative'',
                ''Present students cannot exceed total students'',
                ''At least one rubric item must be scored'']
   \<and> length (errors (validateObservationData
         \<lparr> data_totalStudents = - 1, data_presentStudents = - 1, data_itemScores = [] \<rparr>)) = 3
   \<and> length (errors (validateObservationData
         \<lparr> data_totalStudents = - 2, data_presentStudents = - 1, data_itemScores = [] \<rparr>)) = 4"
proof -
  have hs: "list_ex isScored (map snd (data_itemScores d)) =
            (\<exists>e \<in> set (map snd (data_itemScores d)). rating e \<noteq> Undefined \<and> rating e \<noteq> Num 0)"
    by (simp add: list_ex_iff isScored_def)
  have e: "errors (validateObservationData d) =
     violated (data_totalStudents d \<le> 0) ''Total students must be greater than 0'' @
     violated (data_presentStudents d < 0) ''Present students cannot be negative'' @
     violated (data_presentStudents d > data_totalStudents d)
       ''Present students cannot exceed total students'' @
     violated (\<not> (\<exists>e \<in> set (map snd (data_itemScores d)). rating e \<noteq> Undefined \<and> rating e \<noteq> Num 0))
       ''At least one rubric item must be scored''"
    unfolding validateObservationData_def Let_def hs violated_def by simp
  have v: "isValid (validateObservationData d) = (errors (validateObservationData d) = [])"
    by (simp add: validateObservationData_def Let_def)
  have x3: "length (errors (validateObservationData
         \<lparr> data_totalStudents = - 1, data_presentStudents = - 1, data_itemScores = [] \<rparr>)) = 3"
    by (simp add: validateObservationData_def Let_def)
  have x4: "length (errors (validateObservationData
         \<lparr> data_totalStudents = - 2, data_presentStudents = - 1, data_itemScores = [] \<rparr>)) = 4"
    by (simp add: validateObservationData_def Let_def)
  show ?thesis using e v x3 x4 by simp
qed

theorem C8_validation_rules_witness:
  "(\<exists>e \<in> set (map snd [(''a'', rated 3)]). rating e \<noteq> Undefined \<and> rating e \<noteq> Num 0)
   \<and> validateObservationData
        \<lparr> data_totalStudents = 30, data_presentStudents = 28, data_itemScores = [(''a'', rated 3)] \<rparr> =
      \<lparr> isValid = True, errors = [] \<rparr>
   \<and> errors (validateObservationData
        \<lparr> data_totalStudents = 30, data_presentStudents = 31, data_itemScores = [(''a'', rated 0)] \<rparr>) =
      [''Present students cannot exceed total students'', ''At least one rubric item must be scored'']"
  using C8_validation_rules [of "\<lparr> data_totalStudents = 30, data_presentStudents = 28, data_itemScores = [(''a'', rated 3)] \<rparr>"]
    C8_validation_rules [of "\<lparr> data_totalStudents = 30, data_presentStudents = 31, data_itemScores = [(''a'', rated 0)] \<rparr>"]
  by (simp add: violated_def rated_def validation_result.equality)

text \<open>
  For \<open>totalStudents = -1\<close>, \<open>presentStudents = -1\<close> and no ratings the list does not have
  four entries.
\<close>

theorem C8_four_errors_counterexample:
  "length (errors (validateObservationData
     \<lparr> data_totalStudents = - 1, data_presentStudents = - 1, data_itemScores = [] \<rparr>)) \<noteq> 4"
  by (simp add: validateObservationData_def Let_def)

text \<open>
  C9 (a failing audit write). With the audit table rejecting writes, a SUBMIT by the
  observer on a rated draft is answered 500 \<open>Internal server error\<close> although the status
  has become \<open>SUBMITTED\<close>; an edit is answered 500 although the field is written; a
  delete is answered 500 although the observation and its rows are gone. No audit entry
  exists afterwards. The helper \<open>createAuditLog\<close>, which the three routes do not call,
  returns \<open>null\<close> in the same situation and raises nothing.
\<close>

theorem C9_audit_failure_propagates:
  "fst (transition_PUT (exampleEnv True) (exampleRequest observerUser (transitionBody ''SUBMIT''))
         (exampleServer (exampleObservation ''DRAFT'') [exampleRow (Some 3)])) =
     Response 500 (ErrorBody ''Internal server error'') []
   \<and> database (snd (transition_PUT (exampleEnv True)
         (exampleRequest observerUser (transitionBody ''SUBMIT''))
         (exampleServer (exampleObservation ''DRAFT'') [exampleRow (Some 3)]))) =
     \<lparr> observations = [exampleObservation ''SUBMITTED''], itemScoreRows = [exampleRow (Some 3)],
       attachments = [], auditLogs = [] \<rparr>
   \<and> observation_PUT (exampleEnv True) (exampleRequest observerUser (editBody ''6B''))
         (exampleServer (exampleObservation ''DRAFT'') [exampleRow (Some 3)]) =
     (Response 500 (ErrorBody ''Internal server error'') [],
      exampleServer ((exampleObservation ''DRAFT'')\<lparr>classSection := ''6B''\<rparr>) [exampleRow (Some 3)])
   \<and> observation_DELETE (exampleEnv True) (exampleRequest observerUser ())
         (exampleServer (exampleObservation ''DRAFT'') [exampleRow (Some 3)]) =
     (Response 500 (ErrorBody ''Internal server error'') [],
      \<lparr> rateStore = Map.empty,
        database = \<lparr> observations = [], itemScoreRows = [], attachments = [], auditLogs = [] \<rparr> \<rparr>)
   \<and> createAuditLog (exampleEnv True) exampleAuditParams
         (database (exampleServer (exampleObservation ''DRAFT'') [exampleRow (Some 3)])) =
     (None, database (exampleServer (exampleObservation ''DRAFT'') [exampleRow (Some 3)]))"
proof -
  have fails: "auditLogFails (exampleEnv True)"
    by (simp add: exampleEnv_def)
  have req: "session (exampleRequest observerUser (transitionBody ''SUBMIT'')) = Some observerUser"
    "body (exampleRequest observerUser (transitionBody ''SUBMIT'')) = Some (transitionBody ''SUBMIT'')"
    "action (transitionBody ''SUBMIT'') = Some ''SUBMIT''"
    by (simp_all add: exampleRequest_def transitionBody_def)
  note sw = transition_PUT_switch [OF
      example_passesRateLimit [of True observerUser "transitionBody ''SUBMIT''"
        "exampleObservation ''DRAFT''" "[exampleRow (Some 3)]"]
      req(1) req(2) req(3) _
      example_findUnique [of observerUser "transitionBody ''SUBMIT''" "''DRAFT''" "[exampleRow (Some 3)]"],
      simplified]
  have t: "transition_PUT (exampleEnv True) (exampleRequest observerUser (transitionBody ''SUBMIT''))
         (exampleServer (exampleObservation ''DRAFT'') [exampleRow (Some 3)]) =
       (internal_server_error,
        (exampleServer (exampleObservation ''DRAFT'') [exampleRow (Some 3)])
          \<lparr>rateStore := snd (rateLimit (getClientIdentifier (exampleRequest observerUser (transitionBody ''SUBMIT'')))
                              20 900000 (dateNow (exampleEnv True))
                              (rateStore (exampleServer (exampleObservation ''DRAFT'') [exampleRow (Some 3)]))),
            database := observation_update ''obs1'' (\<lambda>x. x\<lparr>status := ''SUBMITTED''\<rparr>)
              (database (exampleServer (exampleObservation ''DRAFT'') [exampleRow (Some 3)]))\<rparr>)"
    unfolding sw
    by (simp add: submit_switch isObserverOrAdmin_def hasNonNullRating_def itemScoresOf_def
        audit_then_respond_fails [OF fails] exampleServer_def exampleObservation_def
        exampleRow_def observerUser_def exampleRequest_def)
  have c1: "fst (transition_PUT (exampleEnv True) (exampleRequest observerUser (transitionBody ''SUBMIT''))
         (exampleServer (exampleObservation ''DRAFT'') [exampleRow (Some 3)])) =
     Response 500 (ErrorBody ''Internal server error'') []"
    unfolding t by (simp add: internal_server_error_def json_error_def)
  have c2: "database (snd (transition_PUT (exampleEnv True)
         (exampleRequest observerUser (transitionBody ''SUBMIT''))
         (exampleServer (exampleObservation ''DRAFT'') [exampleRow (Some 3)]))) =
     \<lparr> observations = [exampleObservation ''SUBMITTED''], itemScoreRows = [exampleRow (Some 3)],
       attachments = [], auditLogs = [] \<rparr>"
    unfolding t by (simp add: observation_update_def exampleServer_def exampleObservation_def)
  have c3: "observation_PUT (exampleEnv True) (exampleRequest observerUser (editBody ''6B''))
         (exampleServer (exampleObservation ''DRAFT'') [exampleRow (Some 3)]) =
     (Response 500 (ErrorBody ''Internal server error'') [],
      exampleServer ((exampleObservation ''DRAFT'')\<lparr>classSection := ''6B''\<rparr>) [exampleRow (Some 3)])"
    by (simp add: observation_PUT_def exampleRequest_def findUnique_def exampleServer_def
        exampleObservation_def observerUser_def editBody_def edit_fields_def written_def
        replace_itemScores_def observation_update_def audit_then_respond_fails [OF fails]
        internal_server_error_def json_error_def)
  have c4: "observation_DELETE (exampleEnv True) (exampleRequest observerUser ())
         (exampleServer (exampleObservation ''DRAFT'') [exampleRow (Some 3)]) =
     (Response 500 (ErrorBody ''Internal server error'') [],
      \<lparr> rateStore = Map.empty,
        database = \<lparr> observations = [], itemScoreRows = [], attachments = [], auditLogs = [] \<rparr> \<rparr>)"
    by (simp add: observation_DELETE_def exampleRequest_def findUnique_def exampleServer_def
        exampleObservation_def observerUser_def exampleRow_def audit_then_respond_fails [OF fails]
        internal_server_error_def json_error_def)
  have c5: "createAuditLog (exampleEnv True) exampleAuditParams
         (database (exampleServer (exampleObservation ''DRAFT'') [exampleRow (Some 3)])) =
     (None, database (exampleServer (exampleObservation ''DRAFT'') [exampleRow (Some 3)]))"
    by (simp add: createAuditLog_def auditLog_create_def fails)
  show ?thesis using c1 c2 c3 c4 c5 by blast
qed

text \<open>
  C10 (calculateDomainScores, coercion of 0 and of the empty comment). No item score of
  the output has rating 0 or the empty string as comment. Two score records whose
  ratings agree on every key, except where one rates an item 0 and the other leaves it
  unrated (no entry, or a rating of \<open>null\<close> or \<open>undefined\<close>), give the same totals, the
  same percentages and the same per-item ratings, whatever their comments. If their
  comments agree as well, a missing entry and a missing comment reading as the empty
  string, the whole output is the same.
\<close>

theorem C10_zero_same_as_unrated:
  "(\<forall>ds \<in> set (calculateDomainScores t domains scores). \<forall>sc \<in> set (itemScores ds).
       score_rating sc \<noteq> Some 0 \<and> score_comment sc \<noteq> Some [])
   \<and> (differOnlyByZeroRatings scores scores' \<longrightarrow>
        scoresOnly (calculateDomainScores t domains scores) =
        scoresOnly (calculateDomainScores t domains scores'))
   \<and> (differOnlyByZeroRatings scores scores' \<and> sameComments scores scores' \<longrightarrow>
        calculateDomainScores t domains scores = calculateDomainScores t domains scores')"
proof -
  have a: "score_rating sc \<noteq> Some 0 \<and> score_comment sc \<noteq> Some []"
    if "ds \<in> set (calculateDomainScores t domains scores)" and "sc \<in> set (itemScores ds)" for ds sc
  proof -
    from that(1) obtain d where "ds = domainScoreOf t scores d"
      by (auto simp add: calculateDomainScores_def)
    with that(2) obtain item where "sc = domainItemScore t scores item"
      by (auto simp add: itemScores_domainScoreOf)
    then show ?thesis
      by (simp add: domainItemScore_def Let_def rating_or_undefined_nonzero comment_or_undefined_nonempty)
  qed
  show ?thesis
    using a scoresOnly_same [of scores scores' t domains]
      calculateDomainScores_same [of scores scores' t domains]
    by blast
qed

theorem C10_zero_same_as_unrated_witness:
  "differOnlyByZeroRatings
     [(''a'', \<lparr>rating = Num 0, comment = Some ''''\<rparr>), (''b'', rated 3)] [(''b'', rated 3)]
   \<and> sameComments
     [(''a'', \<lparr>rating = Num 0, comment = Some ''''\<rparr>), (''b'', rated 3)] [(''b'', rated 3)]
   \<and> calculateDomainScores 0 [rubricDomain [rubricItem ''a'' 4, rubricItem ''b'' 4]]
        [(''a'', \<lparr>rating = Num 0, comment = Some ''''\<rparr>), (''b'', rated 3)] =
      calculateDomainScores 0 [rubricDomain [rubricItem ''a'' 4, rubricItem ''b'' 4]]
        [(''b'', rated 3)]
   \<and> differOnlyByZeroRatings
     [(''a'', \<lparr>rating = Num 0, comment = Some ''not seen''\<rparr>), (''b'', rated 3)]
     [(''a'', \<lparr>rating = Null, comment = None\<rparr>), (''b'', rated 3)]
   \<and> scoresOnly (calculateDomainScores 0 [rubricDomain [rubricItem ''a'' 4, rubricItem ''b'' 4]]
        [(''a'', \<lparr>rating = Num 0, comment = Some ''not seen''\<rparr>), (''b'', rated 3)]) =
      scoresOnly (calculateDomainScores 0 [rubricDomain [rubricItem ''a'' 4, rubricItem ''b'' 4]]
        [(''a'', \<lparr>rating = Null, comment = None\<rparr>), (''b'', rated 3)])
   \<and> scoresOnly (calculateDomainScores 0 [rubricDomain [rubricItem ''a'' 4, rubricItem ''b'' 4]]
        [(''b'', rated 3)]) =
      [(''d1'', 3, 75, [(''a'', None), (''b'', Some 3)])]"
proof -
  have h1: "differOnlyByZeroRatings
     [(''a'', \<lparr>rating = Num 0, comment = Some ''''\<rparr>), (''b'', rated 3)] [(''b'', rated 3)]"
    by (simp add: differOnlyByZeroRatings_def sameRating_def unratedOrZero_def entryRating_def)
  have h2: "sameComments
     [(''a'', \<lparr>rating = Num 0, comment = Some ''''\<rparr>), (''b'', rated 3)] [(''b'', rated 3)]"
    by (simp add: sameComments_def entryComment_def)
  have h3: "differOnlyByZeroRatings
     [(''a'', \<lparr>rating = Num 0, comment = Some ''not seen''\<rparr>), (''b'', rated 3)]
     [(''a'', \<lparr>rating = Null, comment = None\<rparr>), (''b'', rated 3)]"
    by (simp add: differOnlyByZeroRatings_def sameRating_def unratedOrZero_def entryRating_def)
  have inc: "includedItems [(''b'', rated 3)]
        (rubricDomain [rubricItem ''a'' 4, rubricItem ''b'' 4]) = [rubricItem ''b'' 4]"
    by (simp add: includedItems_def isRated_def rubricDomain_def rubricItem_def rated_def)
  have rb: "ratingOf [(''b'', rated 3)] (rubricItem ''b'' 4) = 3"
    by (simp add: ratingOf_def rubricItem_def rated_def)
  have e: "scoresOnly (calculateDomainScores 0 [rubricDomain [rubricItem ''a'' 4, rubricItem ''b'' 4]]
        [(''b'', rated 3)]) =
      [(''d1'', 3, 75, [(''a'', None), (''b'', Some 3)])]"
    by (simp add: scoresOnly_def calculateDomainScores_def total_domainScoreOf
        percentage_domainScoreOf itemScores_domainScoreOf inc rb maxPossibleScore_def)
      (simp add: rubricDomain_def rubricItem_def percent_values domainScoreOf_def
        domainItemScore_def Let_def rating_or_undefined_def rated_def)
  show ?thesis
    using h1 h2 h3 e
      C10_zero_same_as_unrated [of 0 "[rubricDomain [rubricItem ''a'' 4, rubricItem ''b'' 4]]"
        "[(''a'', \<lparr>rating = Num 0, comment = Some ''''\<rparr>), (''b'', rated 3)]" "[(''b'', rated 3)]"]
      C10_zero_same_as_unrated [of 0 "[rubricDomain [rubricItem ''a'' 4, rubricItem ''b'' 4]]"
        "[(''a'', \<lparr>rating = Num 0, comment = Some ''not seen''\<rparr>), (''b'', rated 3)]"
        "[(''a'', \<lparr>rating = Null, comment = None\<rparr>), (''b'', rated 3)]"]
    by blast
qed

end
